theory Spec2Isabelle
  imports Complex_Main
begin

chapter \<open>The 3D scene objects of veusz (helpers/src/threed/objects.cpp)\<close>

section \<open>Numbers\<close>

text \<open>
  The C++ type \<^verbatim>\<open>double\<close>. A value is a finite number, one of the two infinities, or
  not-a-number. The embedding keeps what the code of objects.cpp can observe of IEEE 754
  arithmetic: the special values and how they propagate, comparisons that are false on
  NaN, and overflow of a finite result beyond the largest finite double to an infinity.
  The rounding of results that stay in range and the sign of zero are not represented:
  a finite result is the exact rational.
\<close>

datatype double = Fin rat | PInf | NInf | NaN

definition DBL_MAX :: rat where
  "DBL_MAX = (2 ^ 53 - 1) * 2 ^ 971"

definition dround :: "rat \<Rightarrow> double" where
  "dround r = (if DBL_MAX < r then PInf else if r < - DBL_MAX then NInf else Fin r)"

text \<open>\<^verbatim>\<open>std::isfinite\<close>.\<close>

fun isfinite :: "double \<Rightarrow> bool" where
  "isfinite (Fin a) = True"
| "isfinite PInf = False"
| "isfinite NInf = False"
| "isfinite NaN = False"

fun is_neg :: "double \<Rightarrow> bool" where
  "is_neg (Fin a) = (a < 0)"
| "is_neg NInf = True"
| "is_neg PInf = False"
| "is_neg NaN = False"

definition inf_sign :: "bool \<Rightarrow> double" where
  "inf_sign neg = (if neg then NInf else PInf)"

fun dadd :: "double \<Rightarrow> double \<Rightarrow> double" where
  "dadd (Fin a) (Fin b) = dround (a + b)"
| "dadd NaN y = NaN"
| "dadd x NaN = NaN"
| "dadd PInf NInf = NaN"
| "dadd NInf PInf = NaN"
| "dadd PInf y = PInf"
| "dadd x PInf = PInf"
| "dadd NInf y = NInf"
| "dadd x NInf = NInf"

fun dneg :: "double \<Rightarrow> double" where
  "dneg (Fin a) = Fin (- a)"
| "dneg PInf = NInf"
| "dneg NInf = PInf"
| "dneg NaN = NaN"

definition dsub :: "double \<Rightarrow> double \<Rightarrow> double" where
  "dsub x y = dadd x (dneg y)"

fun dmul :: "double \<Rightarrow> double \<Rightarrow> double" where
  "dmul (Fin a) (Fin b) = dround (a * b)"
| "dmul NaN y = NaN"
| "dmul x NaN = NaN"
| "dmul (Fin a) y = (if a = 0 then NaN else inf_sign ((a < 0) \<noteq> is_neg y))"
| "dmul x (Fin b) = (if b = 0 then NaN else inf_sign (is_neg x \<noteq> (b < 0)))"
| "dmul x y = inf_sign (is_neg x \<noteq> is_neg y)"

fun ddiv :: "double \<Rightarrow> double \<Rightarrow> double" where
  "ddiv (Fin a) (Fin b) =
     (if b = 0 then (if a = 0 then NaN else inf_sign (a < 0)) else dround (a / b))"
| "ddiv NaN y = NaN"
| "ddiv x NaN = NaN"
| "ddiv (Fin a) y = Fin 0"
| "ddiv x (Fin b) = inf_sign (is_neg x \<noteq> (b < 0))"
| "ddiv x y = NaN"

text \<open>The comparisons \<^verbatim>\<open><\<close>, \<^verbatim>\<open><=\<close> and \<^verbatim>\<open>>\<close>: false as soon as one side is NaN.\<close>

fun dless :: "double \<Rightarrow> double \<Rightarrow> bool" where
  "dless (Fin a) (Fin b) = (a < b)"
| "dless NaN y = False"
| "dless x NaN = False"
| "dless x NInf = False"
| "dless NInf y = True"
| "dless PInf y = False"
| "dless x PInf = True"

fun dle :: "double \<Rightarrow> double \<Rightarrow> bool" where
  "dle (Fin a) (Fin b) = (a \<le> b)"
| "dle NaN y = False"
| "dle x NaN = False"
| "dle NInf y = True"
| "dle x PInf = True"
| "dle x y = False"

definition dgt :: "double \<Rightarrow> double \<Rightarrow> bool" where
  "dgt x y = dless y x"

section \<open>The geometry kernel\<close>

text \<open>
  Modelled from the spec: the header mmaths.h (Vec2, Vec3, Vec4, Mat4 and their operators)
  is not among the sources. The spec names it the geometry kernel: vector and matrix
  types, homogeneous transform application and finiteness testing, the latter a
  componentwise finite test. Vectors are tuples of doubles, a matrix is its four rows,
  sums and products are the componentwise ones.
\<close>

datatype Vec2 = Vec2 double double
datatype Vec3 = Vec3 double double double
datatype Vec4 = Vec4 double double double double
datatype Mat4 = Mat4 Vec4 Vec4 Vec4 Vec4

text \<open>\<^verbatim>\<open>v(i)\<close>, read and written. The code only uses indices 0 to 2 (0 to 3 of a Vec4).\<close>

fun vget3 :: "Vec3 \<Rightarrow> nat \<Rightarrow> double" where
  "vget3 (Vec3 x y z) i = (if i = 0 then x else if i = 1 then y else z)"

fun vset4 :: "Vec4 \<Rightarrow> nat \<Rightarrow> double \<Rightarrow> Vec4" where
  "vset4 (Vec4 x y z w) i d =
     (if i = 0 then Vec4 d y z w else if i = 1 then Vec4 x d z w
      else if i = 2 then Vec4 x y d w else Vec4 x y z d)"

fun vec3to4 :: "Vec3 \<Rightarrow> Vec4" where
  "vec3to4 (Vec3 x y z) = Vec4 x y z (Fin 1)"

fun vec4to3 :: "Vec4 \<Rightarrow> Vec3" where
  "vec4to3 (Vec4 x y z w) =
     (let inv = ddiv (Fin 1) w in Vec3 (dmul x inv) (dmul y inv) (dmul z inv))"

fun vec3to2 :: "Vec3 \<Rightarrow> Vec2" where
  "vec3to2 (Vec3 x y z) = Vec2 x y"

fun vadd3 :: "Vec3 \<Rightarrow> Vec3 \<Rightarrow> Vec3" where
  "vadd3 (Vec3 a b c) (Vec3 x y z) = Vec3 (dadd a x) (dadd b y) (dadd c z)"

fun vsub3 :: "Vec3 \<Rightarrow> Vec3 \<Rightarrow> Vec3" where
  "vsub3 (Vec3 a b c) (Vec3 x y z) = Vec3 (dsub a x) (dsub b y) (dsub c z)"

fun vscale3 :: "Vec3 \<Rightarrow> double \<Rightarrow> Vec3" where
  "vscale3 (Vec3 a b c) s = Vec3 (dmul a s) (dmul b s) (dmul c s)"

fun vadd4 :: "Vec4 \<Rightarrow> Vec4 \<Rightarrow> Vec4" where
  "vadd4 (Vec4 a b c d) (Vec4 x y z w) = Vec4 (dadd a x) (dadd b y) (dadd c z) (dadd d w)"

fun cross :: "Vec3 \<Rightarrow> Vec3 \<Rightarrow> Vec3" where
  "cross (Vec3 a b c) (Vec3 x y z) =
     Vec3 (dsub (dmul b z) (dmul c y)) (dsub (dmul c x) (dmul a z)) (dsub (dmul a y) (dmul b x))"

fun isfinite3 :: "Vec3 \<Rightarrow> bool" where
  "isfinite3 (Vec3 x y z) = (isfinite x \<and> isfinite y \<and> isfinite z)"

fun isfinite4 :: "Vec4 \<Rightarrow> bool" where
  "isfinite4 (Vec4 x y z w) = (isfinite x \<and> isfinite y \<and> isfinite z \<and> isfinite w)"

fun dot4 :: "Vec4 \<Rightarrow> Vec4 \<Rightarrow> double" where
  "dot4 (Vec4 a b c d) (Vec4 x y z w) =
     dadd (dadd (dadd (dmul a x) (dmul b y)) (dmul c z)) (dmul d w)"

fun mat_vec :: "Mat4 \<Rightarrow> Vec4 \<Rightarrow> Vec4" where
  "mat_vec (Mat4 r0 r1 r2 r3) p = Vec4 (dot4 r0 p) (dot4 r1 p) (dot4 r2 p) (dot4 r3 p)"

fun mat_col :: "Mat4 \<Rightarrow> nat \<Rightarrow> Vec4" where
  "mat_col (Mat4 (Vec4 a0 a1 a2 a3) (Vec4 b0 b1 b2 b3) (Vec4 c0 c1 c2 c3) (Vec4 d0 d1 d2 d3)) j =
     (if j = 0 then Vec4 a0 b0 c0 d0 else if j = 1 then Vec4 a1 b1 c1 d1
      else if j = 2 then Vec4 a2 b2 c2 d2 else Vec4 a3 b3 c3 d3)"

fun mat_row_mul :: "Vec4 \<Rightarrow> Mat4 \<Rightarrow> Vec4" where
  "mat_row_mul r m =
     Vec4 (dot4 r (mat_col m 0)) (dot4 r (mat_col m 1)) (dot4 r (mat_col m 2)) (dot4 r (mat_col m 3))"

fun mat_mul :: "Mat4 \<Rightarrow> Mat4 \<Rightarrow> Mat4" where
  "mat_mul (Mat4 r0 r1 r2 r3) m =
     Mat4 (mat_row_mul r0 m) (mat_row_mul r1 m) (mat_row_mul r2 m) (mat_row_mul r3 m)"

definition identityM4 :: Mat4 where
  "identityM4 = Mat4 (Vec4 (Fin 1) (Fin 0) (Fin 0) (Fin 0)) (Vec4 (Fin 0) (Fin 1) (Fin 0) (Fin 0))
                     (Vec4 (Fin 0) (Fin 0) (Fin 1) (Fin 0)) (Vec4 (Fin 0) (Fin 0) (Fin 0) (Fin 1))"

text \<open>The expression \<^verbatim>\<open>vec4to3(outerM*vec3to4(p))\<close>, which objects.cpp writes at every point.\<close>

definition proj :: "Mat4 \<Rightarrow> Vec3 \<Rightarrow> Vec3" where
  "proj outerM p = vec4to3 (mat_vec outerM (vec3to4 p))"

section \<open>Fragments\<close>

text \<open>
  Modelled from the spec: the header fragment.h is not among the sources. A fragment has a
  kind, up to three projected points, two optional style references, a sub-index and a
  path size. The style objects are owned elsewhere: a reference is a handle, an absent
  one is \<open>None\<close>. The back-pointers \<^verbatim>\<open>object\<close> and \<^verbatim>\<open>params\<close> hold the address of the
  producing object and are left out: the embedding has no addresses.
\<close>

datatype FragmentType = FR_NONE | FR_TRIANGLE | FR_LINESEG | FR_PATH

type_synonym LineProp = nat
type_synonym SurfaceProp = nat

text \<open>The array \<^verbatim>\<open>Vec3 points[3]\<close> of a fragment, with \<^verbatim>\<open>points[i]\<close> read and written.\<close>

datatype Points3 = Points3 Vec3 Vec3 Vec3

fun pget :: "Points3 \<Rightarrow> nat \<Rightarrow> Vec3" where
  "pget (Points3 a b c) i = (if i = 0 then a else if i = 1 then b else c)"

fun pset :: "Points3 \<Rightarrow> nat \<Rightarrow> Vec3 \<Rightarrow> Points3" where
  "pset (Points3 a b c) i p =
     (if i = 0 then Points3 p b c else if i = 1 then Points3 a p c else Points3 a b p)"

record Fragment =
  ftype :: FragmentType
  surfaceprop :: "SurfaceProp option"
  lineprop :: "LineProp option"
  points :: Points3
  pathsize :: double
  index :: nat

definition Fragment_init :: Fragment where
  "Fragment_init =
     \<lparr>ftype = FR_NONE, surfaceprop = None, lineprop = None,
      points = Points3 (Vec3 (Fin 0) (Fin 0) (Fin 0)) (Vec3 (Fin 0) (Fin 0) (Fin 0)) (Vec3 (Fin 0) (Fin 0) (Fin 0)),
      pathsize = Fin 0, index = 0\<rparr>"

section \<open>Triangle and PolyLine\<close>

text \<open>\<^verbatim>\<open>Triangle::getFragments\<close>: one triangle fragment, whatever its points.\<close>

definition Triangle_getFragments ::
  "Vec3 \<times> Vec3 \<times> Vec3 \<Rightarrow> SurfaceProp option \<Rightarrow> Mat4 \<Rightarrow> Fragment list \<Rightarrow> Fragment list" where
  "Triangle_getFragments pts sprop outerM v =
     (case pts of (p0, p1, p2) \<Rightarrow>
        v @ [Fragment_init\<lparr>ftype := FR_TRIANGLE, surfaceprop := sprop, lineprop := None,
                           points := Points3 (proj outerM p0) (proj outerM p1) (proj outerM p2)\<rparr>])"

text \<open>
  \<^verbatim>\<open>PolyLine::addPoints\<close> truncates to the shortest of the three arrays.
\<close>

definition PolyLine_addPoints :: "Vec3 list \<Rightarrow> double list \<Rightarrow> double list \<Rightarrow> double list \<Rightarrow> Vec3 list" where
  "PolyLine_addPoints pts x y z =
     (let size = min (length x) (min (length y) (length z))
      in pts @ map (\<lambda>i. Vec3 (x ! i) (y ! i) (z ! i)) [0..<size])"

text \<open>
  \<^verbatim>\<open>PolyLine::getFragments\<close>. The loop runs over the stored points; its state is the
  counter \<open>i\<close>, the fragment \<open>f\<close> (which carries the previous projected point in
  \<open>points[0]\<close>) and the output vector.
\<close>

fun PolyLine_loop :: "Mat4 \<Rightarrow> Vec3 list \<Rightarrow> nat \<Rightarrow> Fragment \<Rightarrow> Fragment list \<Rightarrow> Fragment list" where
  "PolyLine_loop outerM [] i f v = v"
| "PolyLine_loop outerM (p # ps) i f v =
     (let f1 = f\<lparr>points := pset (points f) 1 (pget (points f) 0)\<rparr>;
          f2 = f1\<lparr>points := pset (points f1) 0 (proj outerM p), index := i\<rparr>
      in PolyLine_loop outerM ps (Suc i) f2
           (if 0 < i \<and> isfinite3 (vadd3 (pget (points f2) 0) (pget (points f2) 1)) then v @ [f2] else v))"

definition PolyLine_getFragments ::
  "Vec3 list \<Rightarrow> LineProp option \<Rightarrow> Mat4 \<Rightarrow> Fragment list \<Rightarrow> Fragment list" where
  "PolyLine_getFragments pts lprop outerM v =
     PolyLine_loop outerM pts 0
       (Fragment_init\<lparr>ftype := FR_LINESEG, surfaceprop := None, lineprop := lprop\<rparr>) v"

section \<open>LineSegments\<close>

text \<open>
  An element access \<^verbatim>\<open>a[i]\<close> of a vector is only defined below its size. The embedding
  makes the other case a result of its own.
\<close>

datatype error = OutOfRange

definition vec_at :: "'a list \<Rightarrow> nat \<Rightarrow> error + 'a" where
  "vec_at xs i = (if i < length xs then Inr (xs ! i) else Inl OutOfRange)"

text \<open>
  The constructor from six coordinate arrays truncates to the shortest one and stores
  two points per index.
\<close>

definition LineSegments_init6 ::
  "double list \<Rightarrow> double list \<Rightarrow> double list \<Rightarrow> double list \<Rightarrow> double list \<Rightarrow> double list \<Rightarrow> Vec3 list" where
  "LineSegments_init6 x1 y1 z1 x2 y2 z2 =
     (let size = min (min (length x1) (min (length y1) (length z1)))
                     (min (length x2) (min (length y2) (length z2)))
      in concat (map (\<lambda>i. [Vec3 (x1 ! i) (y1 ! i) (z1 ! i), Vec3 (x2 ! i) (y2 ! i) (z2 ! i)]) [0..<size]))"

text \<open>
  The constructor from two arrays of packed triples: \<^verbatim>\<open>for(i=0; i<size; i+=3)\<close> with
  \<open>sz\<close> the shorter length, reading the elements \<open>i\<close>, \<open>i+1\<close> and \<open>i+2\<close> of both arrays.
\<close>

definition read_triple :: "double list \<Rightarrow> nat \<Rightarrow> error + Vec3" where
  "read_triple pts i =
     (case vec_at pts i of Inl e \<Rightarrow> Inl e | Inr a \<Rightarrow>
      (case vec_at pts (i + 1) of Inl e \<Rightarrow> Inl e | Inr b \<Rightarrow>
       (case vec_at pts (i + 2) of Inl e \<Rightarrow> Inl e | Inr c \<Rightarrow> Inr (Vec3 a b c))))"

function LineSegments_init2_loop ::
  "double list \<Rightarrow> double list \<Rightarrow> nat \<Rightarrow> nat \<Rightarrow> Vec3 list \<Rightarrow> error + Vec3 list" where
  "LineSegments_init2_loop pts1 pts2 sz i pts =
     (if i < sz then
        (case read_triple pts1 i of Inl e \<Rightarrow> Inl e | Inr a \<Rightarrow>
         (case read_triple pts2 i of Inl e \<Rightarrow> Inl e | Inr b \<Rightarrow>
            LineSegments_init2_loop pts1 pts2 sz (i + 3) (pts @ [a, b])))
      else Inr pts)"
  by pat_completeness auto
termination
  by (relation "measure (\<lambda>(pts1, pts2, sz, i, pts). sz - i)") auto

definition LineSegments_init2 :: "double list \<Rightarrow> double list \<Rightarrow> error + Vec3 list" where
  "LineSegments_init2 pts1 pts2 =
     LineSegments_init2_loop pts1 pts2 (min (length pts1) (length pts2)) 0 []"

text \<open>
  \<^verbatim>\<open>LineSegments::getFragments\<close>: \<^verbatim>\<open>for(i=0; i<s; i+=2)\<close> over the stored points, reading
  \<open>points[i]\<close> and \<open>points[i+1]\<close>; no test of the projected points.
\<close>

fun LineSegments_loop :: "Mat4 \<Rightarrow> Vec3 list \<Rightarrow> nat \<Rightarrow> Fragment \<Rightarrow> Fragment list \<Rightarrow> error + Fragment list" where
  "LineSegments_loop outerM [] i f v = Inr v"
| "LineSegments_loop outerM [p] i f v = Inl OutOfRange"
| "LineSegments_loop outerM (p # q # ps) i f v =
     (let f1 = f\<lparr>points := pset (points f) 0 (proj outerM p)\<rparr>;
          f2 = f1\<lparr>points := pset (points f1) 1 (proj outerM q), index := i\<rparr>
      in LineSegments_loop outerM ps (i + 2) f2 (v @ [f2]))"

definition LineSegments_getFragments ::
  "Vec3 list \<Rightarrow> LineProp option \<Rightarrow> Mat4 \<Rightarrow> Fragment list \<Rightarrow> error + Fragment list" where
  "LineSegments_getFragments pts lprop outerM v =
     LineSegments_loop outerM pts 0
       (Fragment_init\<lparr>ftype := FR_LINESEG, surfaceprop := None, lineprop := lprop\<rparr>) v"

section \<open>Mesh\<close>

datatype Direction = X_DIRN | Y_DIRN | Z_DIRN

text \<open>\<^verbatim>\<open>Mesh::getVecIdxs\<close>: the components for the height, pos1 and pos2 directions.\<close>

fun getVecIdxs :: "Direction \<Rightarrow> nat \<times> nat \<times> nat" where
  "getVecIdxs X_DIRN = (0, 1, 2)"
| "getVecIdxs Y_DIRN = (1, 2, 0)"
| "getVecIdxs Z_DIRN = (2, 0, 1)"

text \<open>
  A loop whose body can fail: the first failure ends it.
\<close>

fun efold :: "('a \<Rightarrow> 's \<Rightarrow> error + 's) \<Rightarrow> 'a list \<Rightarrow> 's \<Rightarrow> error + 's" where
  "efold f [] s = Inr s"
| "efold f (x # xs) s = (case f x s of Inl e \<Rightarrow> Inl e | Inr s' \<Rightarrow> efold f xs s')"

text \<open>
  \<^verbatim>\<open>Mesh::getLineFragments\<close>. The point \<open>pt\<close> of the code is a Vec4 with \<open>w = 1\<close> whose
  three other components are all written before each use (the constant coordinate in
  the loop over \<open>consti\<close>, the stepping coordinate and the height in the loop over
  \<open>stepi\<close>), so the embedding builds it anew at each step. The fragment \<open>fl\<close> is carried
  through all loops: it holds the previous projected point and the running index.
  The height array is read at \<open>stepi*n2+consti\<close> or \<open>consti*n2+stepi\<close>; nothing in the
  code bounds that index by the array's size.
\<close>

definition Mesh_line_pt :: "nat \<Rightarrow> nat \<Rightarrow> nat \<Rightarrow> double \<Rightarrow> double \<Rightarrow> double \<Rightarrow> Vec4" where
  "Mesh_line_pt vidx_const vidx_step vidx_h c s h =
     vset4 (vset4 (vset4 (Vec4 (Fin 0) (Fin 0) (Fin 0) (Fin 1)) vidx_const c) vidx_step s) vidx_h h"

definition Mesh_line_step ::
  "Mat4 \<Rightarrow> double list \<Rightarrow> nat \<Rightarrow> nat \<Rightarrow> double list \<Rightarrow> double list \<Rightarrow> nat \<Rightarrow> nat \<Rightarrow> nat \<Rightarrow>
   nat \<Rightarrow> nat \<Rightarrow> Fragment \<times> Fragment list \<Rightarrow> error + Fragment \<times> Fragment list" where
  "Mesh_line_step outerM heights n2 stepindex vec_step vec_const vidx_step vidx_const vidx_h
                  consti stepi st =
     (case st of (fl, v) \<Rightarrow>
      (case vec_at heights (if stepindex = 0 then stepi * n2 + consti else consti * n2 + stepi) of
         Inl e \<Rightarrow> Inl e
       | Inr heightsval \<Rightarrow>
          (let pt = Mesh_line_pt vidx_const vidx_step vidx_h (vec_const ! consti) (vec_step ! stepi) heightsval;
               fl1 = fl\<lparr>points := pset (points fl) 1 (pget (points fl) 0)\<rparr>;
               fl2 = fl1\<lparr>points := pset (points fl1) 0 (vec4to3 (mat_vec outerM pt))\<rparr>;
               v1 = (if 0 < stepi \<and> isfinite3 (vadd3 (pget (points fl2) 0) (pget (points fl2) 1))
                     then v @ [fl2] else v)
           in Inr (fl2\<lparr>index := index fl2 + 1\<rparr>, v1))))"

text \<open>One walk along the stepping direction, at the fixed coordinate \<open>consti\<close>.\<close>

definition Mesh_line_walk ::
  "Mat4 \<Rightarrow> double list \<Rightarrow> nat \<Rightarrow> nat \<Rightarrow> double list \<Rightarrow> double list \<Rightarrow> nat \<Rightarrow> nat \<Rightarrow> nat \<Rightarrow>
   nat \<Rightarrow> Fragment \<times> Fragment list \<Rightarrow> error + Fragment \<times> Fragment list" where
  "Mesh_line_walk outerM heights n2 stepindex vec_step vec_const vidx_step vidx_const vidx_h consti st =
     efold (Mesh_line_step outerM heights n2 stepindex vec_step vec_const vidx_step vidx_const vidx_h consti)
       [0..<length vec_step] st"

definition Mesh_line_dirn ::
  "Mat4 \<Rightarrow> double list \<Rightarrow> double list \<Rightarrow> double list \<Rightarrow> nat \<times> nat \<times> nat \<Rightarrow>
   nat \<Rightarrow> Fragment \<times> Fragment list \<Rightarrow> error + Fragment \<times> Fragment list" where
  "Mesh_line_dirn outerM pos1 pos2 heights vidxs stepindex st =
     (case vidxs of (vidx_h, vidx_1, vidx_2) \<Rightarrow>
       (let vec_step = (if stepindex = 0 then pos1 else pos2);
            vec_const = (if stepindex = 0 then pos2 else pos1);
            vidx_step = (if stepindex = 0 then vidx_1 else vidx_2);
            vidx_const = (if stepindex = 0 then vidx_2 else vidx_1)
        in efold (Mesh_line_walk outerM heights (length pos2) stepindex vec_step vec_const
                    vidx_step vidx_const vidx_h)
             [0..<length vec_const] st))"

definition Mesh_getLineFragments ::
  "double list \<Rightarrow> double list \<Rightarrow> double list \<Rightarrow> Direction \<Rightarrow> LineProp option \<Rightarrow>
   Mat4 \<Rightarrow> Fragment list \<Rightarrow> error + Fragment list" where
  "Mesh_getLineFragments pos1 pos2 heights dirn lprop outerM v =
     (if lprop = None then Inr v
      else
        (let fl = Fragment_init\<lparr>ftype := FR_LINESEG, surfaceprop := None, lineprop := lprop\<rparr>
         in (case efold (Mesh_line_dirn outerM pos1 pos2 heights (getVecIdxs dirn)) [0, 1] (fl, v) of
               Inl e \<Rightarrow> Inl e
             | Inr (fl', v') \<Rightarrow> Inr v')))"

text \<open>
  \<^verbatim>\<open>Mesh::getSurfaceFragments\<close>. The table of the two diagonal splits, the four corners
  of the cell \<open>(i1, i2)\<close> (corner \<open>i\<close> lies at \<open>j1 = i1 + i % 2\<close>, \<open>j2 = i2 + i / 2\<close>) and the
  two triangles of a cell. As for the lines, the three components of each corner are
  written in every cell before they are read.
\<close>

definition tidxs :: "nat list list list" where
  "tidxs = [[[0, 1, 2], [3, 1, 2]], [[1, 0, 3], [2, 0, 3]]]"

definition Mesh_corner ::
  "double list \<Rightarrow> double list \<Rightarrow> double list \<Rightarrow> nat \<times> nat \<times> nat \<Rightarrow> nat \<Rightarrow> nat \<Rightarrow> nat \<Rightarrow> error + Vec4" where
  "Mesh_corner pos1 pos2 heights vidxs i1 i2 i =
     (case vidxs of (vidx_h, vidx_1, vidx_2) \<Rightarrow>
       (let j1 = i1 + i mod 2; j2 = i2 + i div 2
        in (case vec_at heights (j1 * length pos2 + j2) of
              Inl e \<Rightarrow> Inl e
            | Inr h \<Rightarrow>
                Inr (vset4 (vset4 (vset4 (Vec4 (Fin 0) (Fin 0) (Fin 0) (Fin 1)) vidx_h h)
                              vidx_1 (pos1 ! j1)) vidx_2 (pos2 ! j2)))))"

definition Mesh_corners ::
  "double list \<Rightarrow> double list \<Rightarrow> double list \<Rightarrow> nat \<times> nat \<times> nat \<Rightarrow> nat \<Rightarrow> nat \<Rightarrow> error + Vec4 list" where
  "Mesh_corners pos1 pos2 heights vidxs i1 i2 =
     efold (\<lambda>i p. case Mesh_corner pos1 pos2 heights vidxs i1 i2 i of
                     Inl e \<Rightarrow> Inl e | Inr c \<Rightarrow> Inr (p @ [c]))
       [0, 1, 2, 3] []"

definition Mesh_triangle :: "Mat4 \<Rightarrow> Vec4 list \<Rightarrow> nat \<Rightarrow> nat \<Rightarrow> nat \<Rightarrow> Fragment \<Rightarrow> Fragment list \<Rightarrow> Fragment list" where
  "Mesh_triangle outerM p i1 i2 tri fs v =
     (let idxs = tidxs ! ((i1 + i2) mod 2) ! tri;
          pproj = map (\<lambda>c. vec4to3 (mat_vec outerM c)) p
      in if isfinite4 (vadd4 (vadd4 (p ! (idxs ! 0)) (p ! (idxs ! 1))) (p ! (idxs ! 2)))
         then v @ [fs\<lparr>points := Points3 (pproj ! (idxs ! 0)) (pproj ! (idxs ! 1)) (pproj ! (idxs ! 2))\<rparr>]
         else v)"

definition Mesh_surface_cell ::
  "Mat4 \<Rightarrow> double list \<Rightarrow> double list \<Rightarrow> double list \<Rightarrow> nat \<times> nat \<times> nat \<Rightarrow> nat \<Rightarrow> nat \<Rightarrow>
   Fragment \<times> Fragment list \<Rightarrow> error + Fragment \<times> Fragment list" where
  "Mesh_surface_cell outerM pos1 pos2 heights vidxs i1 i2 st =
     (case st of (fs, v) \<Rightarrow>
       (case Mesh_corners pos1 pos2 heights vidxs i1 i2 of
          Inl e \<Rightarrow> Inl e
        | Inr p \<Rightarrow>
            Inr (fs\<lparr>index := index fs + 1\<rparr>,
                 Mesh_triangle outerM p i1 i2 1 fs (Mesh_triangle outerM p i1 i2 0 fs v))))"

definition Mesh_getSurfaceFragments ::
  "double list \<Rightarrow> double list \<Rightarrow> double list \<Rightarrow> Direction \<Rightarrow> SurfaceProp option \<Rightarrow>
   Mat4 \<Rightarrow> Fragment list \<Rightarrow> error + Fragment list" where
  "Mesh_getSurfaceFragments pos1 pos2 heights dirn sprop outerM v =
     (if sprop = None then Inr v
      else
        (let fs = Fragment_init\<lparr>ftype := FR_TRIANGLE, surfaceprop := sprop, lineprop := None\<rparr>
         in (case efold (\<lambda>i1. efold (Mesh_surface_cell outerM pos1 pos2 heights (getVecIdxs dirn) i1)
                                  [0..<length pos2 - 1])
                    [0..<length pos1 - 1] (fs, v) of
               Inl e \<Rightarrow> Inl e
             | Inr (fs', v') \<Rightarrow> Inr v')))"

text \<open>\<^verbatim>\<open>Mesh::getFragments\<close>: the lines, then the surface.\<close>

definition Mesh_getFragments ::
  "double list \<Rightarrow> double list \<Rightarrow> double list \<Rightarrow> Direction \<Rightarrow> LineProp option \<Rightarrow> SurfaceProp option \<Rightarrow>
   Mat4 \<Rightarrow> Fragment list \<Rightarrow> error + Fragment list" where
  "Mesh_getFragments pos1 pos2 heights dirn lprop sprop outerM v =
     (case Mesh_getLineFragments pos1 pos2 heights dirn lprop outerM v of
        Inl e \<Rightarrow> Inl e
      | Inr v1 \<Rightarrow> Mesh_getSurfaceFragments pos1 pos2 heights dirn sprop outerM v1)"

section \<open>Counting line segments\<close>

text \<open>
  The consecutive pairs of a list of projected points, named by the index \<open>k\<close> of their
  second point: those whose componentwise sum is finite (the test the code makes), those
  whose sum is not, and those with an endpoint that is not finite.
\<close>

definition sumfinite_pairs :: "Vec3 list \<Rightarrow> nat list" where
  "sumfinite_pairs qs = filter (\<lambda>k. isfinite3 (vadd3 (qs ! k) (qs ! (k - 1)))) [1..<length qs]"

definition sum_nonfinite_pairs :: "Vec3 list \<Rightarrow> nat list" where
  "sum_nonfinite_pairs qs = filter (\<lambda>k. \<not> isfinite3 (vadd3 (qs ! k) (qs ! (k - 1)))) [1..<length qs]"

definition endpoint_nonfinite_pairs :: "Vec3 list \<Rightarrow> nat list" where
  "endpoint_nonfinite_pairs qs =
     filter (\<lambda>k. \<not> (isfinite3 (qs ! k) \<and> isfinite3 (qs ! (k - 1)))) [1..<length qs]"

fun sumfinite_count :: "Vec3 \<Rightarrow> Vec3 list \<Rightarrow> nat" where
  "sumfinite_count prev [] = 0"
| "sumfinite_count prev (q # qs) = (if isfinite3 (vadd3 q prev) then 1 else 0) + sumfinite_count q qs"

text \<open>The projected points of one line walk of a Mesh, in the order of the walk.\<close>

definition Mesh_walk_points ::
  "Mat4 \<Rightarrow> double list \<Rightarrow> nat \<Rightarrow> nat \<Rightarrow> double list \<Rightarrow> double list \<Rightarrow> nat \<Rightarrow> nat \<Rightarrow> nat \<Rightarrow> nat \<Rightarrow> Vec3 list" where
  "Mesh_walk_points outerM heights n2 stepindex vec_step vec_const vidx_step vidx_const vidx_h consti =
     map (\<lambda>stepi. vec4to3 (mat_vec outerM
            (Mesh_line_pt vidx_const vidx_step vidx_h (vec_const ! consti) (vec_step ! stepi)
               (heights ! (if stepindex = 0 then stepi * n2 + consti else consti * n2 + stepi)))))
       [0..<length vec_step]"

section \<open>DataMesh\<close>

text \<open>\<^verbatim>\<open>average4\<close> and \<^verbatim>\<open>average2\<close>: the mean of the finite arguments; \<open>0/0\<close> when none is.\<close>

definition avg_add :: "double \<Rightarrow> double \<times> nat \<Rightarrow> double \<times> nat" where
  "avg_add a acc = (case acc of (tot, ct) \<Rightarrow> if isfinite a then (dadd tot a, ct + 1) else (tot, ct))"

definition average4 :: "double \<Rightarrow> double \<Rightarrow> double \<Rightarrow> double \<Rightarrow> double" where
  "average4 a b c d =
     (case avg_add d (avg_add c (avg_add b (avg_add a (Fin 0, 0)))) of
        (tot, ct) \<Rightarrow> ddiv tot (Fin (of_nat ct)))"

definition average2 :: "double \<Rightarrow> double \<Rightarrow> double" where
  "average2 a b =
     (case avg_add b (avg_add a (Fin 0, 0)) of (tot, ct) \<Rightarrow> ddiv tot (Fin (of_nat ct)))"

text \<open>
  \<^verbatim>\<open>LineCellTracker\<close>: the sizes \<open>n1\<close>, \<open>n2\<close> and one flag per grid point and line index.
  Every access that \<^verbatim>\<open>DataMesh::getFragments\<close> makes lies inside \<open>data\<close>
  (lemma \<open>tracker_index_in_range\<close> below).
\<close>

definition MAXLINEIDX :: nat where
  "MAXLINEIDX = 4"

datatype LineCellTracker = LineCellTracker nat nat "bool list"

definition LineCellTracker_init :: "nat \<Rightarrow> nat \<Rightarrow> LineCellTracker" where
  "LineCellTracker_init n1 n2 = LineCellTracker n1 n2 (replicate (n1 * n2 * MAXLINEIDX) False)"

fun setLine :: "LineCellTracker \<Rightarrow> nat \<Rightarrow> nat \<Rightarrow> nat \<Rightarrow> LineCellTracker" where
  "setLine (LineCellTracker n1 n2 data) i1 i2 lineidx =
     LineCellTracker n1 n2 (data[(i1 * n2 + i2) * MAXLINEIDX + lineidx := True])"

fun isLineSet :: "LineCellTracker \<Rightarrow> nat \<Rightarrow> nat \<Rightarrow> nat \<Rightarrow> bool" where
  "isLineSet (LineCellTracker n1 n2 data) i1 i2 lineidx =
     data ! ((i1 * n2 + i2) * MAXLINEIDX + lineidx)"

text \<open>The constant tables of \<^verbatim>\<open>DataMesh::getFragments\<close>.\<close>

definition trilist_highres :: "nat list list" where
  "trilist_highres = [[8,0,1],[8,1,2],[8,2,3],[8,3,4],[8,4,5],[8,5,6],[8,6,7],[8,7,0]]"

definition trilist_lowres1 :: "nat list list" where
  "trilist_lowres1 = [[0,2,4],[0,6,4]]"

definition trilist_lowres2 :: "nat list list" where
  "trilist_lowres2 = [[2,0,6],[2,4,6]]"

definition linelist_lowres :: "nat list list" where
  "linelist_lowres = [[0,2],[0,6],[4,2],[4,6]]"

definition linelist_highres :: "nat list list" where
  "linelist_highres = [[0,1],[1,2],[2,3],[3,4],[4,5],[5,6],[6,7],[7,0]]"

definition linecell_lowres :: "nat list list" where
  "linecell_lowres = [[0,0,0],[0,0,1],[0,1,0],[1,0,1]]"

definition linecell_highres :: "nat list list" where
  "linecell_highres = [[0,0,0],[0,0,1],[1,0,2],[1,0,3],[0,1,1],[0,1,0],[0,0,3],[0,0,2]]"

text \<open>
  The check of the three role indices: \<open>found[idxs[i]] = 1\<close> for each index that is at
  most 2.
\<close>

definition DataMesh_found :: "nat list \<Rightarrow> bool list" where
  "DataMesh_found idxs =
     fold (\<lambda>i found. if idxs ! i \<le> 2 then found[idxs ! i := True] else found)
       [0, 1, 2] [False, False, False]"

text \<open>
  The values of the neighbouring cells, clipped at the edges of the grid:
  \<open>neigh[(d1+1)*3+(d2+1)]\<close> for \<open>d1\<close>, \<open>d2\<close> from -1 to 1. The loop variables and the
  sizes \<open>n1\<close>, \<open>n2\<close> are of type \<^verbatim>\<open>int\<close>.
\<close>

definition DataMesh_neigh :: "double list \<Rightarrow> int \<Rightarrow> int \<Rightarrow> int \<Rightarrow> int \<Rightarrow> double list" where
  "DataMesh_neigh vals n1 n2 i1 i2 =
     concat (map (\<lambda>d1. map (\<lambda>d2.
        (let clip1 = max (min (i1 + d1) (n1 - 1)) 0;
             clip2 = max (min (i2 + d2) (n2 - 1)) 0
         in vals ! nat (clip1 * n2 + clip2))) [-1, 0, 1]) [-1, 0, 1])"

text \<open>
  The nine corners of a cell: the corners and edge centres clockwise from \<open>(i1, i2)\<close>,
  then the cell centre. Each is a Vec4 with \<open>w = 1\<close> whose components \<open>idxs[0]\<close>,
  \<open>idxs[1]\<close>, \<open>idxs[2]\<close> are written in every cell; after the check of the indices these
  are all three of the other components.
\<close>

definition DataMesh_pt :: "nat list \<Rightarrow> double \<Rightarrow> double \<Rightarrow> double \<Rightarrow> Vec4" where
  "DataMesh_pt idxs h a b =
     vset4 (vset4 (vset4 (Vec4 (Fin 0) (Fin 0) (Fin 0) (Fin 1)) (idxs ! 0) h) (idxs ! 1) a) (idxs ! 2) b"

definition DataMesh_corners ::
  "nat list \<Rightarrow> double list \<Rightarrow> double list \<Rightarrow> double list \<Rightarrow> int \<Rightarrow> int \<Rightarrow> Vec4 list" where
  "DataMesh_corners idxs edges1 edges2 neigh i1 i2 =
     (let e1a = edges1 ! nat i1; e1b = edges1 ! nat (i1 + 1);
          e1m = dmul (Fin (1/2)) (dadd (edges1 ! nat i1) (edges1 ! nat (i1 + 1)));
          e2a = edges2 ! nat i2; e2b = edges2 ! nat (i2 + 1);
          e2m = dmul (Fin (1/2)) (dadd (edges2 ! nat i2) (edges2 ! nat (i2 + 1)))
      in [DataMesh_pt idxs (average4 (neigh ! 0) (neigh ! 3) (neigh ! 4) (neigh ! 1)) e1a e2a,
          DataMesh_pt idxs (average2 (neigh ! 4) (neigh ! 3)) e1m e2a,
          DataMesh_pt idxs (average4 (neigh ! 3) (neigh ! 6) (neigh ! 7) (neigh ! 4)) e1b e2a,
          DataMesh_pt idxs (average2 (neigh ! 4) (neigh ! 7)) e1b e2m,
          DataMesh_pt idxs (average4 (neigh ! 4) (neigh ! 7) (neigh ! 8) (neigh ! 5)) e1b e2b,
          DataMesh_pt idxs (average2 (neigh ! 4) (neigh ! 5)) e1m e2b,
          DataMesh_pt idxs (average4 (neigh ! 1) (neigh ! 4) (neigh ! 5) (neigh ! 2)) e1a e2b,
          DataMesh_pt idxs (average2 (neigh ! 4) (neigh ! 1)) e1a e2m,
          DataMesh_pt idxs (neigh ! 4) e1m e2m])"

text \<open>The projected corners \<open>corners3\<close> of the cell \<open>(i1, i2)\<close>.\<close>

definition DataMesh_corners3 ::
  "Mat4 \<Rightarrow> nat list \<Rightarrow> double list \<Rightarrow> double list \<Rightarrow> double list \<Rightarrow> int \<Rightarrow> int \<Rightarrow>
   int \<Rightarrow> int \<Rightarrow> Vec3 list" where
  "DataMesh_corners3 outerM idxs edges1 edges2 vals n1 n2 i1 i2 =
     map (\<lambda>c. vec4to3 (mat_vec outerM c))
       (DataMesh_corners idxs edges1 edges2 (DataMesh_neigh vals n1 n2 i1 i2) i1 i2)"

text \<open>
  The triangles of a cell. The fields of \<open>ft\<close> that a pushed fragment shows are all
  written in the cell, so the fragment is built from the initial \<open>ft\<close>.
\<close>

definition DataMesh_tris :: "bool \<Rightarrow> int \<Rightarrow> int \<Rightarrow> nat list list" where
  "DataMesh_tris highres i1 i2 =
     (if highres then trilist_highres
      else if (i1 + i2) mod 2 = 0 then trilist_lowres1 else trilist_lowres2)"

definition DataMesh_triangles ::
  "bool \<Rightarrow> Vec3 list \<Rightarrow> Fragment \<Rightarrow> int \<Rightarrow> int \<Rightarrow> int \<Rightarrow> Fragment list \<Rightarrow> Fragment list" where
  "DataMesh_triangles highres corners3 ft i1 i2 n2 v =
     (let tris = DataMesh_tris highres i1 i2;
          ntris = (if highres then 8 else 2)
      in fold (\<lambda>i v. v @ [ft\<lparr>index := nat (i1 * n2 + i2),
                               points := Points3 (corners3 ! (tris ! i ! 0)) (corners3 ! (tris ! i ! 1))
                                                 (corners3 ! (tris ! i ! 2))\<rparr>])
           [0..<ntris] v)"

text \<open>
  The lines of a cell. A line is looked up in the tracker under the grid point
  \<open>(i1 + linecells[i][0], i2 + linecells[i][1])\<close> and the line index \<open>linecells[i][2]\<close>;
  if it is not set, it is emitted when both projected endpoints are finite, and set in
  either case.
\<close>

definition DataMesh_line_fragment :: "nat list list \<Rightarrow> Vec3 list \<Rightarrow> Fragment \<Rightarrow> int \<Rightarrow> int \<Rightarrow> int \<Rightarrow> nat \<Rightarrow> Fragment" where
  "DataMesh_line_fragment lines corners3 fl i1 i2 n2 i =
     fl\<lparr>index := nat (i1 * n2 + i2),
        points := pset (pset (points fl) 0 (corners3 ! (lines ! i ! 0))) 1 (corners3 ! (lines ! i ! 1))\<rparr>"

definition DataMesh_line_step ::
  "nat list list \<Rightarrow> nat list list \<Rightarrow> Vec3 list \<Rightarrow> Fragment \<Rightarrow> int \<Rightarrow> int \<Rightarrow> int \<Rightarrow> nat \<Rightarrow>
   Fragment list \<times> LineCellTracker \<Rightarrow> Fragment list \<times> LineCellTracker" where
  "DataMesh_line_step lines linecells corners3 fl i1 i2 n2 i st =
     (case st of (v, linetracker) \<Rightarrow>
       (if \<not> isLineSet linetracker (nat i1 + linecells ! i ! 0) (nat i2 + linecells ! i ! 1)
                (linecells ! i ! 2)
        then
          (let fl1 = DataMesh_line_fragment lines corners3 fl i1 i2 n2 i
           in (if isfinite3 (pget (points fl1) 0) \<and> isfinite3 (pget (points fl1) 1)
               then v @ [fl1] else v,
               setLine linetracker (nat i1 + linecells ! i ! 0) (nat i2 + linecells ! i ! 1)
                 (linecells ! i ! 2)))
        else (v, linetracker)))"

definition DataMesh_cell ::
  "nat list \<Rightarrow> double list \<Rightarrow> double list \<Rightarrow> double list \<Rightarrow> bool \<Rightarrow> Fragment \<Rightarrow> Fragment \<Rightarrow>
   Mat4 \<Rightarrow> int \<Rightarrow> int \<Rightarrow> int \<Rightarrow> int \<Rightarrow>
   Fragment list \<times> LineCellTracker \<Rightarrow> Fragment list \<times> LineCellTracker" where
  "DataMesh_cell idxs edges1 edges2 vals highres ft fl outerM n1 n2 i1 i2 st =
     (if \<not> isfinite (vals ! nat (i1 * n2 + i2)) then st
      else
        (case st of (v, linetracker) \<Rightarrow>
          (let corners3 = DataMesh_corners3 outerM idxs edges1 edges2 vals n1 n2 i1 i2;
               v1 = (if surfaceprop ft \<noteq> None
                     then DataMesh_triangles highres corners3 ft i1 i2 n2 v else v)
           in if lineprop fl \<noteq> None
              then fold (DataMesh_line_step (if highres then linelist_highres else linelist_lowres)
                           (if highres then linecell_highres else linecell_lowres)
                           corners3 fl i1 i2 n2)
                     [0..<(if highres then 8 else 4)] (v1, linetracker)
              else (v1, linetracker))))"

text \<open>
  The output of a decomposition: the fragment vector and the diagnostic messages written
  to \<^verbatim>\<open>stderr\<close>.
\<close>

record Output =
  fragvec :: "Fragment list"
  stderr :: "string list"

text \<open>
  The type \<^verbatim>\<open>int\<close> has 32 bits. \<open>int32\<close> is the value that a result has in it: the
  conversion of a size to \<^verbatim>\<open>int\<close> and the signed product of the size check keep the
  low 32 bits in two's complement, which is what the compiled check computes when the
  exact result does not fit.
\<close>

definition int32 :: "int \<Rightarrow> int" where
  "int32 x = (x + 2 ^ 31) mod 2 ^ 32 - 2 ^ 31"

text \<open>\<^verbatim>\<open>int(a.size())\<close>.\<close>

definition size_int :: "'a list \<Rightarrow> int" where
  "size_int xs = int32 (int (length xs))"

text \<open>
  \<^verbatim>\<open>DataMesh::getFragments\<close>: the check of the role indices, the check
  \<^verbatim>\<open>(int(edges1.size())-1)*(int(edges2.size())-1) != int(vals.size())\<close> in 32-bit
  arithmetic, and the loop over the cells. The arithmetic inside the loop is exact for
  every grid whose tracker size \<open>edges1.size() * edges2.size() * 4\<close> is below \<open>2^32\<close>.
\<close>

definition DataMesh_getFragments ::
  "double list \<Rightarrow> double list \<Rightarrow> double list \<Rightarrow> nat \<Rightarrow> nat \<Rightarrow> nat \<Rightarrow> bool \<Rightarrow>
   LineProp option \<Rightarrow> SurfaceProp option \<Rightarrow> Mat4 \<Rightarrow> Output \<Rightarrow> Output" where
  "DataMesh_getFragments edges1 edges2 vals idxval idxedge1 idxedge2 highres lprop sprop outerM out =
     (let idxs = [idxval, idxedge1, idxedge2];
          found = DataMesh_found idxs
      in if \<not> found ! 0 \<or> \<not> found ! 1 \<or> \<not> found ! 2
         then out\<lparr>stderr := stderr out @ [''DataMesh: invalid indices'' @ [CHR 0x0A]]\<rparr>
         else if int32 (int32 (size_int edges1 - 1) * int32 (size_int edges2 - 1)) \<noteq> size_int vals
         then out\<lparr>stderr := stderr out @ [''DataMesh: invalid size'' @ [CHR 0x0A]]\<rparr>
         else if lprop = None \<and> sprop = None then out
         else
           (let ft = Fragment_init\<lparr>ftype := FR_TRIANGLE, surfaceprop := sprop, lineprop := None\<rparr>;
                fl = Fragment_init\<lparr>ftype := FR_LINESEG, surfaceprop := None, lineprop := lprop\<rparr>;
                linetracker = LineCellTracker_init (length edges1) (length edges2);
                n1 = int32 (size_int edges1 - 1);
                n2 = int32 (size_int edges2 - 1)
            in out\<lparr>fragvec :=
                 fst (fold (\<lambda>i1. fold (DataMesh_cell idxs edges1 edges2 vals highres ft fl outerM n1 n2 i1)
                                    (map int [0..<nat n2]))
                        (map int [0..<nat n1]) (fragvec out, linetracker))\<rparr>))"

section \<open>Points and Text\<close>

text \<open>
  \<^verbatim>\<open>Points::getFragments\<close>: one path marker per point whose projection is finite. The
  arrays are truncated to the shortest; the sizes count only when there are any.
\<close>

definition Points_getFragments ::
  "double list \<Rightarrow> double list \<Rightarrow> double list \<Rightarrow> double list \<Rightarrow> LineProp option \<Rightarrow> SurfaceProp option \<Rightarrow>
   Mat4 \<Rightarrow> Fragment list \<Rightarrow> Fragment list" where
  "Points_getFragments x y z sizes lineedge surfacefill outerM v =
     (let fp = Fragment_init\<lparr>ftype := FR_PATH, surfaceprop := surfacefill, lineprop := lineedge,
                               pathsize := Fin 1\<rparr>;
          size0 = min (length x) (min (length y) (length z));
          hassizes = (sizes \<noteq> []);
          size1 = (if hassizes then min size0 (length sizes) else size0)
      in fold (\<lambda>i v.
            (let fp1 = fp\<lparr>points := pset (points fp) 0
                                      (vec4to3 (mat_vec outerM (Vec4 (x ! i) (y ! i) (z ! i) (Fin 1)))),
                          pathsize := (if hassizes then sizes ! i else pathsize fp),
                          index := i\<rparr>
             in if isfinite3 (pget (points fp1) 0) then v @ [fp1] else v))
           [0..<size1] v)"

text \<open>
  \<^verbatim>\<open>Text::getFragments\<close>: one path marker per pair of packed triples, with no test of the
  projected points.
\<close>

definition Text_getFragments :: "double list \<Rightarrow> double list \<Rightarrow> Mat4 \<Rightarrow> Fragment list \<Rightarrow> Fragment list" where
  "Text_getFragments pos1 pos2 outerM v =
     (let fp = Fragment_init\<lparr>ftype := FR_PATH, surfaceprop := None, lineprop := None, pathsize := Fin 1\<rparr>;
          numitems = min (length pos1) (length pos2) div 3
      in fold (\<lambda>i v.
            (let base = i * 3;
                 pt1 = Vec4 (pos1 ! base) (pos1 ! (base + 1)) (pos1 ! (base + 2)) (Fin 1);
                 pt2 = Vec4 (pos2 ! base) (pos2 ! (base + 1)) (pos2 ! (base + 2)) (Fin 1)
             in v @ [fp\<lparr>points := pset (pset (points fp) 0 (vec4to3 (mat_vec outerM pt1))) 1
                                         (vec4to3 (mat_vec outerM pt2)),
                         index := i\<rparr>]))
           [0..<numitems] v)"

section \<open>Facing\<close>

text \<open>
  The test of \<^verbatim>\<open>TriangleFacing\<close> and \<^verbatim>\<open>FacingContainer\<close>: the transformed normal lies
  further along z than the transformed origin.
\<close>

definition facing :: "Mat4 \<Rightarrow> Vec3 \<Rightarrow> bool" where
  "facing outerM normal =
     (let origin = vec4to3 (mat_vec outerM (Vec4 (Fin 0) (Fin 0) (Fin 0) (Fin 1)));
          tnorm = vec4to3 (mat_vec outerM (vec3to4 normal))
      in dgt (vget3 tnorm 2) (vget3 origin 2))"

definition TriangleFacing_getFragments ::
  "Vec3 \<times> Vec3 \<times> Vec3 \<Rightarrow> SurfaceProp option \<Rightarrow> Mat4 \<Rightarrow> Fragment list \<Rightarrow> Fragment list" where
  "TriangleFacing_getFragments pts sprop outerM v =
     (case pts of (p0, p1, p2) \<Rightarrow>
        (let normal = cross (vsub3 p1 p0) (vsub3 p2 p0)
         in if facing outerM normal then Triangle_getFragments pts sprop outerM v else v))"

section \<open>AxisTickLabels\<close>

text \<open>
  The function \<^verbatim>\<open>twodLineIntersect\<close> of twod.h is not among the sources. The embedding
  takes as a parameter \<open>lineCross a b c d\<close>, which stands for
  \<^verbatim>\<open>twodLineIntersect(a, b, c, d) == LINE_CROSS\<close>.
\<close>

type_synonym LineCross = "Vec2 \<Rightarrow> Vec2 \<Rightarrow> Vec2 \<Rightarrow> Vec2 \<Rightarrow> bool"

definition faceOverlap :: "LineCross \<Rightarrow> Vec2 list \<Rightarrow> Vec2 list \<Rightarrow> bool" where
  "faceOverlap lineCross linepts facepts =
     list_ex (\<lambda>edge. lineCross (linepts ! 0) (linepts ! 1) (facepts ! edge) (facepts ! ((edge + 1) mod 4)))
       [0..<4]"

definition faces :: "nat list list" where
  "faces = [[0,1,3,2], [4,5,7,6], [0,1,5,4], [2,3,7,6], [0,4,6,2], [1,5,7,3]]"

text \<open>The corners of the cube in scene coordinates, \<open>scenecorners[i2+i1*2+i0*4]\<close>.\<close>

definition scenecorners :: "Vec3 \<Rightarrow> Vec3 \<Rightarrow> Mat4 \<Rightarrow> Vec3 list" where
  "scenecorners box1 box2 outerM =
     (let boxpts = [box1, box2]
      in concat (map (\<lambda>i0. concat (map (\<lambda>i1. map (\<lambda>i2.
           proj outerM (Vec3 (vget3 (boxpts ! i0) 0) (vget3 (boxpts ! i1) 1) (vget3 (boxpts ! i2) 2)))
           [0, 1]) [0, 1])) [0, 1]))"

text \<open>The axes that cross no face in 2D; all of them when none is left.\<close>

definition axis_overlap :: "LineCross \<Rightarrow> Vec3 list \<Rightarrow> Vec3 list \<Rightarrow> Vec3 list \<Rightarrow> nat \<Rightarrow> bool" where
  "axis_overlap lineCross corners pt_starts pt_ends axis =
     (let linepts = [vec3to2 (pt_starts ! axis), vec3to2 (pt_ends ! axis)]
      in list_ex (\<lambda>face. faceOverlap lineCross linepts
                    [vec3to2 (corners ! (faces ! face ! 0)), vec3to2 (corners ! (faces ! face ! 1)),
                     vec3to2 (corners ! (faces ! face ! 2)), vec3to2 (corners ! (faces ! face ! 3))])
           [0..<6])"

definition axchoices :: "LineCross \<Rightarrow> Vec3 list \<Rightarrow> Vec3 list \<Rightarrow> Vec3 list \<Rightarrow> nat \<Rightarrow> nat list" where
  "axchoices lineCross corners pt_starts pt_ends numentries =
     (let choices = filter (\<lambda>axis. \<not> axis_overlap lineCross corners pt_starts pt_ends axis) [0..<numentries]
      in if choices = [] then [0..<numentries] else choices)"

text \<open>The approximate centre of the cube: the mean of the eight projected corners.\<close>

definition cube_centre :: "Vec3 list \<Rightarrow> Vec3" where
  "cube_centre corners =
     (let centx = fold (\<lambda>i c. dadd c (vget3 (corners ! i) 0)) [0..<8] (Fin 0);
          centy = fold (\<lambda>i c. dadd c (vget3 (corners ! i) 1)) [0..<8] (Fin 0);
          centz = fold (\<lambda>i c. dadd c (vget3 (corners ! i) 2)) [0..<8] (Fin 0)
      in Vec3 (dmul centx (Fin (1/8))) (dmul centy (Fin (1/8))) (dmul centz (Fin (1/8))))"

text \<open>
  The score of an axis, \<^verbatim>\<open>(avx <= centx)*10 + (avy > centy)*11 + (avz > centz)*12\<close>, and
  the loop that keeps the first axis of the highest score.
\<close>

definition axis_score :: "Vec3 \<Rightarrow> Vec3 list \<Rightarrow> Vec3 list \<Rightarrow> nat \<Rightarrow> int" where
  "axis_score cent pt_starts pt_ends choice =
     (let avx = dmul (Fin (1/2)) (dadd (vget3 (pt_starts ! choice) 0) (vget3 (pt_ends ! choice) 0));
          avy = dmul (Fin (1/2)) (dadd (vget3 (pt_starts ! choice) 1) (vget3 (pt_ends ! choice) 1));
          avz = dmul (Fin (1/2)) (dadd (vget3 (pt_starts ! choice) 2) (vget3 (pt_ends ! choice) 2))
      in (if dle avx (vget3 cent 0) then 1 else 0) * 10
         + (if dgt avy (vget3 cent 1) then 1 else 0) * 11
         + (if dgt avz (vget3 cent 2) then 1 else 0) * 12)"

definition best_step :: "Vec3 \<Rightarrow> Vec3 list \<Rightarrow> Vec3 list \<Rightarrow> nat \<Rightarrow> int \<times> nat \<Rightarrow> int \<times> nat" where
  "best_step cent pt_starts pt_ends choice best =
     (case best of (bestscore, bestaxis) \<Rightarrow>
        (let score = axis_score cent pt_starts pt_ends choice
         in if bestscore < score then (score, choice) else (bestscore, bestaxis)))"

definition best_axis :: "Vec3 \<Rightarrow> Vec3 list \<Rightarrow> Vec3 list \<Rightarrow> nat list \<Rightarrow> nat" where
  "best_axis cent pt_starts pt_ends choices =
     snd (fold (best_step cent pt_starts pt_ends) choices (- 1, 0))"

text \<open>The axis that \<^verbatim>\<open>AxisTickLabels::getFragments\<close> chooses, with at least one entry.\<close>

definition AxisTickLabels_bestaxis ::
  "LineCross \<Rightarrow> Vec3 \<Rightarrow> Vec3 \<Rightarrow> Vec3 list \<Rightarrow> Vec3 list \<Rightarrow> Mat4 \<Rightarrow> nat" where
  "AxisTickLabels_bestaxis lineCross box1 box2 starts ends outerM =
     (let numentries = min (length starts) (length ends);
          corners = scenecorners box1 box2 outerM;
          pt_starts = map (\<lambda>axis. proj outerM (starts ! axis)) [0..<numentries];
          pt_ends = map (\<lambda>axis. proj outerM (ends ! axis)) [0..<numentries]
      in best_axis (cube_centre corners) pt_starts pt_ends
           (axchoices lineCross corners pt_starts pt_ends numentries))"

text \<open>The fragment of tick \<open>i\<close> along the chosen axis.\<close>

definition AxisTickLabels_tick :: "Vec3 \<Rightarrow> Vec3 \<Rightarrow> double list \<Rightarrow> Mat4 \<Rightarrow> Fragment \<Rightarrow> nat \<Rightarrow> Fragment" where
  "AxisTickLabels_tick axstart delta tickfracs outerM fp i =
     (let p1 = vadd3 axstart (vscale3 delta (tickfracs ! i));
          p2 = vadd3 axstart (vscale3 delta (dadd (tickfracs ! i) (Fin (1/1000))))
      in fp\<lparr>index := i,
             points := pset (pset (points fp) 0 (proj outerM p1)) 1 (proj outerM p2)\<rparr>)"

definition AxisTickLabels_getFragments ::
  "LineCross \<Rightarrow> Vec3 \<Rightarrow> Vec3 \<Rightarrow> double list \<Rightarrow> Vec3 list \<Rightarrow> Vec3 list \<Rightarrow> Mat4 \<Rightarrow>
   Fragment list \<Rightarrow> Fragment list" where
  "AxisTickLabels_getFragments lineCross box1 box2 tickfracs starts ends outerM fragvec0 =
     (if min (length starts) (length ends) = 0 then fragvec0
      else
        (let bestaxis = AxisTickLabels_bestaxis lineCross box1 box2 starts ends outerM;
             fp = Fragment_init\<lparr>ftype := FR_PATH, surfaceprop := None, lineprop := None,
                                  pathsize := Fin 1\<rparr>;
             axstart = starts ! bestaxis;
             delta = vsub3 (ends ! bestaxis) axstart
         in fold (\<lambda>i fragvec1. fragvec1 @ [AxisTickLabels_tick axstart delta tickfracs outerM fp i])
              [0..<length tickfracs] fragvec0))"

section \<open>The object hierarchy\<close>

text \<open>
  The classes of objects.cpp as one datatype: a constructor per class, with the members
  that \<open>getFragments\<close> reads. \<open>BaseObject\<close> is the class \<^verbatim>\<open>Object\<close> itself, whose
  \<open>getFragments\<close> does nothing. A container owns its children.
\<close>

datatype Object =
    BaseObject
  | Triangle "Vec3 \<times> Vec3 \<times> Vec3" "SurfaceProp option"
  | PolyLine "Vec3 list" "LineProp option"
  | LineSegments "Vec3 list" "LineProp option"
  | Mesh "double list" "double list" "double list" Direction "LineProp option" "SurfaceProp option"
  | DataMesh "double list" "double list" "double list" nat nat nat bool "LineProp option" "SurfaceProp option"
  | Points "double list" "double list" "double list" "double list" "LineProp option" "SurfaceProp option"
  | Text "double list" "double list"
  | TriangleFacing "Vec3 \<times> Vec3 \<times> Vec3" "SurfaceProp option"
  | ObjectContainer Mat4 "Object list"
  | FacingContainer Vec3 Mat4 "Object list"
  | AxisTickLabels Vec3 Vec3 "double list" "Vec3 list" "Vec3 list"

definition push :: "Output \<Rightarrow> Fragment list \<Rightarrow> error + Output" where
  "push out v = Inr (out\<lparr>fragvec := v\<rparr>)"

definition push_checked :: "Output \<Rightarrow> error + Fragment list \<Rightarrow> error + Output" where
  "push_checked out r = (case r of Inl e \<Rightarrow> Inl e | Inr v \<Rightarrow> Inr (out\<lparr>fragvec := v\<rparr>))"

text \<open>
  The virtual function \<open>getFragments\<close>. \<open>ObjectContainer_getFragments\<close> is the loop of a
  container over its children, with the product \<open>totM\<close> of the outer and the local matrix.
\<close>

fun getFragments :: "LineCross \<Rightarrow> Object \<Rightarrow> Mat4 \<Rightarrow> Output \<Rightarrow> error + Output"
  and ObjectContainer_getFragments :: "LineCross \<Rightarrow> Object list \<Rightarrow> Mat4 \<Rightarrow> Output \<Rightarrow> error + Output" where
  "getFragments lc BaseObject outerM out = Inr out"
| "getFragments lc (Triangle pts sprop) outerM out =
     push out (Triangle_getFragments pts sprop outerM (fragvec out))"
| "getFragments lc (PolyLine pts lprop) outerM out =
     push out (PolyLine_getFragments pts lprop outerM (fragvec out))"
| "getFragments lc (LineSegments pts lprop) outerM out =
     push_checked out (LineSegments_getFragments pts lprop outerM (fragvec out))"
| "getFragments lc (Mesh pos1 pos2 heights dirn lprop sprop) outerM out =
     push_checked out (Mesh_getFragments pos1 pos2 heights dirn lprop sprop outerM (fragvec out))"
| "getFragments lc (DataMesh edges1 edges2 vals idxval idxedge1 idxedge2 highres lprop sprop) outerM out =
     Inr (DataMesh_getFragments edges1 edges2 vals idxval idxedge1 idxedge2 highres lprop sprop outerM out)"
| "getFragments lc (Points x y z sizes lineedge surfacefill) outerM out =
     push out (Points_getFragments x y z sizes lineedge surfacefill outerM (fragvec out))"
| "getFragments lc (Text pos1 pos2) outerM out =
     push out (Text_getFragments pos1 pos2 outerM (fragvec out))"
| "getFragments lc (TriangleFacing pts sprop) outerM out =
     push out (TriangleFacing_getFragments pts sprop outerM (fragvec out))"
| "getFragments lc (ObjectContainer objM objects) outerM out =
     ObjectContainer_getFragments lc objects (mat_mul outerM objM) out"
| "getFragments lc (FacingContainer normal objM objects) outerM out =
     (if facing outerM normal
      then ObjectContainer_getFragments lc objects (mat_mul outerM objM) out
      else Inr out)"
| "getFragments lc (AxisTickLabels box1 box2 tickfracs starts ends) outerM out =
     push out (AxisTickLabels_getFragments lc box1 box2 tickfracs starts ends outerM (fragvec out))"
| "ObjectContainer_getFragments lc [] totM out = Inr out"
| "ObjectContainer_getFragments lc (obj # objects) totM out =
     (case getFragments lc obj totM out of
        Inl e \<Rightarrow> Inl e
      | Inr out1 \<Rightarrow> ObjectContainer_getFragments lc objects totM out1)"

section \<open>The criteria of the axis score\<close>

text \<open>
  The projected midpoint of a candidate edge and the three tests of the score, as the
  code makes them: left of the centre is \<open>avx <= centx\<close>, below it is \<open>avy > centy\<close> (the
  projected y axis points down), in front of it is \<open>avz > centz\<close>.
\<close>

definition edge_mid :: "Vec3 list \<Rightarrow> Vec3 list \<Rightarrow> nat \<Rightarrow> Vec3" where
  "edge_mid pt_starts pt_ends choice =
     Vec3 (dmul (Fin (1/2)) (dadd (vget3 (pt_starts ! choice) 0) (vget3 (pt_ends ! choice) 0)))
          (dmul (Fin (1/2)) (dadd (vget3 (pt_starts ! choice) 1) (vget3 (pt_ends ! choice) 1)))
          (dmul (Fin (1/2)) (dadd (vget3 (pt_starts ! choice) 2) (vget3 (pt_ends ! choice) 2)))"

definition is_left :: "Vec3 \<Rightarrow> Vec3 \<Rightarrow> bool" where
  "is_left cent m = dle (vget3 m 0) (vget3 cent 0)"

definition is_below :: "Vec3 \<Rightarrow> Vec3 \<Rightarrow> bool" where
  "is_below cent m = dgt (vget3 m 1) (vget3 cent 1)"

definition is_front :: "Vec3 \<Rightarrow> Vec3 \<Rightarrow> bool" where
  "is_front cent m = dgt (vget3 m 2) (vget3 cent 2)"

text \<open>
  An example: the cube from \<open>(-1,-1,-1)\<close> to \<open>(1,1,1)\<close> under the identity, with two
  candidate edges beside it. Edge 0 runs from \<open>(2,-1,1)\<close> to \<open>(2,1,1)\<close>: its midpoint
  \<open>(2,0,1)\<close> is in front of the centre \<open>(0,0,0)\<close>, but neither left of nor below it.
  Edge 1 runs from \<open>(-1,2,-1)\<close> to \<open>(1,2,-1)\<close>: its midpoint \<open>(0,2,-1)\<close> is left of and
  below the centre, but not in front. No edge crosses a face of the cube in 2D.
\<close>

definition example_box1 :: Vec3 where
  "example_box1 = Vec3 (Fin (- 1)) (Fin (- 1)) (Fin (- 1))"

definition example_box2 :: Vec3 where
  "example_box2 = Vec3 (Fin 1) (Fin 1) (Fin 1)"

definition example_starts :: "Vec3 list" where
  "example_starts = [Vec3 (Fin 2) (Fin (- 1)) (Fin 1), Vec3 (Fin (- 1)) (Fin 2) (Fin (- 1))]"

definition example_ends :: "Vec3 list" where
  "example_ends = [Vec3 (Fin 2) (Fin 1) (Fin 1), Vec3 (Fin 1) (Fin 2) (Fin (- 1))]"

definition no_line_crosses :: LineCross where
  "no_line_crosses a b c d = False"

definition every_line_crosses :: LineCross where
  "every_line_crosses a b c d = True"

section \<open>The triangles of a Mesh cell\<close>

text \<open>
  The four corners of the cell \<open>(i1, i2)\<close> when the height array holds them, and the
  triangles that the cell appends for a fragment \<open>fs\<close>: those of the two of the split
  \<open>tidxs[(i1+i2)%2]\<close> whose three summed corners are finite.
\<close>

definition Mesh_cell_pts ::
  "double list \<Rightarrow> double list \<Rightarrow> double list \<Rightarrow> nat \<times> nat \<times> nat \<Rightarrow> nat \<Rightarrow> nat \<Rightarrow> Vec4 list" where
  "Mesh_cell_pts pos1 pos2 heights vidxs i1 i2 =
     (case vidxs of (vidx_h, vidx_1, vidx_2) \<Rightarrow>
        map (\<lambda>i. vset4 (vset4 (vset4 (Vec4 (Fin 0) (Fin 0) (Fin 0) (Fin 1)) vidx_h
                                   (heights ! ((i1 + i mod 2) * length pos2 + (i2 + i div 2))))
                            vidx_1 (pos1 ! (i1 + i mod 2))) vidx_2 (pos2 ! (i2 + i div 2)))
          [0, 1, 2, 3])"

definition Mesh_cell_triangles :: "Mat4 \<Rightarrow> Vec4 list \<Rightarrow> nat \<Rightarrow> nat \<Rightarrow> Fragment \<Rightarrow> Fragment list" where
  "Mesh_cell_triangles outerM p i1 i2 fs =
     Mesh_triangle outerM p i1 i2 1 fs (Mesh_triangle outerM p i1 i2 0 fs [])"

text \<open>The sum of the three corners of triangle \<open>tri\<close> of a cell, which the code tests.\<close>

definition Mesh_triangle_sum :: "Vec4 list \<Rightarrow> nat \<Rightarrow> nat \<Rightarrow> nat \<Rightarrow> Vec4" where
  "Mesh_triangle_sum p i1 i2 tri =
     vadd4 (vadd4 (p ! (tidxs ! ((i1 + i2) mod 2) ! tri ! 0)) (p ! (tidxs ! ((i1 + i2) mod 2) ! tri ! 1)))
           (p ! (tidxs ! ((i1 + i2) mod 2) ! tri ! 2))"

text \<open>The fragment of triangle \<open>tri\<close> of a cell: the projected corners that the table names.\<close>

definition Mesh_triangle_fragment :: "Mat4 \<Rightarrow> Vec4 list \<Rightarrow> nat \<Rightarrow> nat \<Rightarrow> nat \<Rightarrow> Fragment \<Rightarrow> Fragment" where
  "Mesh_triangle_fragment outerM p i1 i2 tri fs =
     fs\<lparr>points := Points3 (vec4to3 (mat_vec outerM (p ! (tidxs ! ((i1 + i2) mod 2) ! tri ! 0))))
                            (vec4to3 (mat_vec outerM (p ! (tidxs ! ((i1 + i2) mod 2) ! tri ! 1))))
                            (vec4to3 (mat_vec outerM (p ! (tidxs ! ((i1 + i2) mod 2) ! tri ! 2))))\<rparr>"

section \<open>Finite fragments\<close>

text \<open>
  A fragment is finite when the points its kind uses are: both endpoints of a line
  segment, the position of a path marker. Nothing is asked of a triangle.
  \<open>appends_finite v v'\<close> says that \<open>v'\<close> is \<open>v\<close> with finite fragments appended.
\<close>

definition fragment_finite :: "Fragment \<Rightarrow> bool" where
  "fragment_finite f =
     (case ftype f of
        FR_NONE \<Rightarrow> True
      | FR_TRIANGLE \<Rightarrow> True
      | FR_LINESEG \<Rightarrow> isfinite3 (pget (points f) 0) \<and> isfinite3 (pget (points f) 1)
      | FR_PATH \<Rightarrow> isfinite3 (pget (points f) 0))"

definition appends_finite :: "Fragment list \<Rightarrow> Fragment list \<Rightarrow> bool" where
  "appends_finite v v' = (\<exists>new. v' = v @ new \<and> list_all fragment_finite new)"

text \<open>
  The objects all of whose producers test the points of their line segments and path
  markers: no LineSegments, Text or AxisTickLabels, in a container or alone.
\<close>

fun tests_finiteness :: "Object \<Rightarrow> bool" where
  "tests_finiteness (LineSegments pts lprop) = False"
| "tests_finiteness (Text pos1 pos2) = False"
| "tests_finiteness (AxisTickLabels box1 box2 tickfracs starts ends) = False"
| "tests_finiteness (ObjectContainer objM objects) = list_all tests_finiteness objects"
| "tests_finiteness (FacingContainer normal objM objects) = list_all tests_finiteness objects"
| "tests_finiteness obj = True"

section \<open>Properties\<close>

text \<open>
  C9. The claim: the constructor of LineSegments from two packed-triple arrays only reads
  inside its arrays, also when the shorter length is no multiple of 3. The code does not
  keep to it: the loop tests \<open>i < size\<close> and then reads \<open>i+1\<close> and \<open>i+2\<close>. With two arrays
  of one element each it reads the elements 1 and 2 of both, which do not exist.
\<close>

theorem LineSegments_init2_reads_out_of_range:
  "LineSegments_init2 [Fin 1] [Fin 1] = Inl OutOfRange"
  by (simp add: LineSegments_init2_def read_triple_def vec_at_def)

lemma pget_pset [simp]:
  "pget (pset ps 0 x) 0 = x" "pget (pset ps (Suc 0) x) (Suc 0) = x"
  "pget (pset ps (Suc 0) x) 0 = pget ps 0" "pget (pset ps 0 x) (Suc 0) = pget ps (Suc 0)"
  by (cases ps; simp)+

lemma isfinite_dadd: "isfinite (dadd a b) \<Longrightarrow> isfinite a \<and> isfinite b"
  by (cases a; cases b) auto

lemma isfinite3_vadd3: "isfinite3 (vadd3 a b) \<Longrightarrow> isfinite3 a \<and> isfinite3 b"
  by (cases a; cases b) (auto dest: isfinite_dadd)

lemma sumfinite_count_pairs:
  "sumfinite_count prev qs = length (sumfinite_pairs (prev # qs))"
proof (induction qs arbitrary: prev)
  case Nil
  then show ?case by (simp add: sumfinite_pairs_def)
next
  case (Cons q qs)
  have "[1..<Suc (length (q # qs))] = 1 # map Suc [1..<Suc (length qs)]"
    by (simp add: upt_conv_Cons map_Suc_upt del: upt_Suc)
  moreover have "filter (\<lambda>k. isfinite3 (vadd3 ((q # qs) ! k) ((q # qs) ! (k - Suc 0)))) [Suc 0..<Suc (length qs)]
      = filter (\<lambda>x. isfinite3 (vadd3 ((q # qs) ! x) ((prev # q # qs) ! x))) [Suc 0..<Suc (length qs)]"
    by (rule filter_cong) (auto simp: nth_Cons')
  ultimately show ?case
    by (simp add: Cons.IH sumfinite_pairs_def filter_map o_def del: upt_Suc)
qed

lemma PolyLine_loop_length:
  "0 < i \<Longrightarrow>
   length (PolyLine_loop outerM ps i f v) = length v + sumfinite_count (pget (points f) 0) (map (proj outerM) ps)"
  by (induction ps arbitrary: i f v) (auto simp: Let_def)

lemma PolyLine_count:
  "length (PolyLine_getFragments pts lprop outerM v) =
   length v + length (sumfinite_pairs (map (proj outerM) pts))"
proof (cases pts)
  case Nil
  then show ?thesis by (simp add: PolyLine_getFragments_def sumfinite_pairs_def)
next
  case (Cons p ps)
  then show ?thesis
    by (simp add: PolyLine_getFragments_def Let_def PolyLine_loop_length
        sumfinite_count_pairs del: upt_Suc)
qed

lemma Mesh_walk_from:
  assumes "\<forall>k<n. (if stepindex = 0 then k * n2 + consti else consti * n2 + k) < length heights"
    and "0 < i" "i \<le> n"
  shows "\<exists>fl' v'. efold (Mesh_line_step outerM heights n2 stepindex vec_step vec_const vidx_step vidx_const vidx_h consti)
            [i..<n] (fl, v) = Inr (fl', v') \<and>
          length v' = length v + sumfinite_count (pget (points fl) 0)
            (map (\<lambda>stepi. vec4to3 (mat_vec outerM
            (Mesh_line_pt vidx_const vidx_step vidx_h (vec_const ! consti) (vec_step ! stepi)
               (heights ! (if stepindex = 0 then stepi * n2 + consti else consti * n2 + stepi))))) [i..<n])"
  using assms
proof (induction "n - i" arbitrary: i fl v)
  case 0
  then show ?case by simp
next
  case (Suc d)
  then have lt: "i < n" by simp
  then have up: "[i..<n] = i # [Suc i..<n]" by (simp add: upt_conv_Cons)
  have rd: "(if stepindex = 0 then i * n2 + consti else consti * n2 + i) < length heights"
    using Suc.prems(1) lt by blast
  obtain fl1 v1 where st: "Mesh_line_step outerM heights n2 stepindex vec_step vec_const vidx_step vidx_const vidx_h consti i (fl, v) = Inr (fl1, v1)"
    and p0: "pget (points fl1) 0 = vec4to3 (mat_vec outerM
            (Mesh_line_pt vidx_const vidx_step vidx_h (vec_const ! consti) (vec_step ! i)
               (heights ! (if stepindex = 0 then i * n2 + consti else consti * n2 + i))))"
    and l1: "length v1 = length v + (if isfinite3 (vadd3 (pget (points fl1) 0) (pget (points fl) 0)) then 1 else 0)"
    using rd \<open>0 < i\<close> by (auto simp: Mesh_line_step_def vec_at_def Let_def)
  have "d = n - Suc i" using Suc.hyps(2) by simp
  from Suc.hyps(1)[OF this Suc.prems(1), of fl1 v1] lt
  obtain fl' v' where "efold (Mesh_line_step outerM heights n2 stepindex vec_step vec_const vidx_step vidx_const vidx_h consti)
            [Suc i..<n] (fl1, v1) = Inr (fl', v')"
     and "length v' = length v1 + sumfinite_count (pget (points fl1) 0)
            (map (\<lambda>stepi. vec4to3 (mat_vec outerM
            (Mesh_line_pt vidx_const vidx_step vidx_h (vec_const ! consti) (vec_step ! stepi)
               (heights ! (if stepindex = 0 then stepi * n2 + consti else consti * n2 + stepi))))) [Suc i..<n])"
    by auto
  then show ?case
    unfolding up using st p0 l1 by simp
qed

lemma Mesh_walk_count:
  assumes "\<forall>k<length vec_step. (if stepindex = 0 then k * n2 + consti else consti * n2 + k) < length heights"
  shows "\<exists>fl' v'. Mesh_line_walk outerM heights n2 stepindex vec_step vec_const vidx_step vidx_const vidx_h consti (fl, v)
             = Inr (fl', v') \<and>
          length v' = length v + length (sumfinite_pairs
             (Mesh_walk_points outerM heights n2 stepindex vec_step vec_const vidx_step vidx_const vidx_h consti))"
proof (cases "length vec_step")
  case 0
  then show ?thesis
    by (simp add: Mesh_line_walk_def Mesh_walk_points_def sumfinite_pairs_def)
next
  case (Suc m)
  let ?step = "Mesh_line_step outerM heights n2 stepindex vec_step vec_const vidx_step vidx_const vidx_h consti"
  let ?q = "\<lambda>stepi. vec4to3 (mat_vec outerM
            (Mesh_line_pt vidx_const vidx_step vidx_h (vec_const ! consti) (vec_step ! stepi)
               (heights ! (if stepindex = 0 then stepi * n2 + consti else consti * n2 + stepi))))"
  have up: "[0..<length vec_step] = 0 # [1..<length vec_step]"
    using Suc by (simp add: upt_conv_Cons del: upt_Suc)
  have rd: "(if stepindex = 0 then 0 * n2 + consti else consti * n2 + 0) < length heights"
    using assms Suc by (metis zero_less_Suc)
  obtain fl1 where st: "?step 0 (fl, v) = Inr (fl1, v)" and p0: "pget (points fl1) 0 = ?q 0"
    using rd by (auto simp: Mesh_line_step_def vec_at_def Let_def)
  have i1: "0 < (1::nat)" "1 \<le> length vec_step" using Suc by simp_all
  from Mesh_walk_from[OF assms i1, where outerM=outerM and vec_const=vec_const and vec_step=vec_step
      and vidx_step=vidx_step and vidx_const=vidx_const and vidx_h=vidx_h and fl=fl1 and v=v]
  obtain fl' v' where "efold ?step [1..<length vec_step] (fl1, v) = Inr (fl', v')"
    and "length v' = length v + sumfinite_count (pget (points fl1) 0) (map ?q [1..<length vec_step])"
    by blast
  then show ?thesis
    unfolding Mesh_line_walk_def Mesh_walk_points_def up
    using st p0 by (simp add: sumfinite_count_pairs del: upt_Suc)
qed

lemma sumfinite_pairs_compl:
  "length (sumfinite_pairs qs) = (length qs - 1) - length (sum_nonfinite_pairs qs)"
  using sum_length_filter_compl[of "\<lambda>k. isfinite3 (vadd3 (qs ! k) (qs ! (k - 1)))" "[1..<length qs]"]
  by (simp add: sumfinite_pairs_def sum_nonfinite_pairs_def)

lemma sumfinite_pairs_le: "length (sumfinite_pairs qs) \<le> length qs - 1"
  by (simp add: sumfinite_pairs_compl)

lemma endpoint_nonfinite_sum: "set (endpoint_nonfinite_pairs qs) \<subseteq> set (sum_nonfinite_pairs qs)"
  by (auto simp: endpoint_nonfinite_pairs_def sum_nonfinite_pairs_def dest: isfinite3_vadd3)

lemma DBL_MAX_ge1: "1 \<le> DBL_MAX"
  by (simp add: DBL_MAX_def)

lemma dround_small [simp]: "dround 0 = Fin 0" "dround 1 = Fin 1" "dround DBL_MAX = Fin DBL_MAX"
  using DBL_MAX_ge1 by (simp_all add: dround_def)

lemma dround_twice_max: "dround (2 * DBL_MAX) = PInf"
  using DBL_MAX_ge1 by (simp add: dround_def)

text \<open>
  C3, as amended. A PolyLine of \<open>N\<close> points, and each line walk of a Mesh along \<open>N\<close>
  points, emits at most \<open>N - 1\<close> line segments: \<open>N - 1\<close> minus the number of consecutive
  pairs whose summed projected endpoints are not finite. A pair with an endpoint that is
  not finite is always among these. The walk of a Mesh returns when the height array
  holds the entries it reads.
\<close>

theorem line_walk_segment_count:
  "length (PolyLine_getFragments pts lprop outerM v) - length v
     = (length pts - 1) - length (sum_nonfinite_pairs (map (proj outerM) pts))
   \<and> length (PolyLine_getFragments pts lprop outerM v) - length v \<le> length pts - 1
   \<and> set (endpoint_nonfinite_pairs (map (proj outerM) pts)) \<subseteq> set (sum_nonfinite_pairs (map (proj outerM) pts))
   \<and> ((\<forall>k<length vec_step. (if stepindex = 0 then k * n2 + consti else consti * n2 + k) < length heights) \<longrightarrow>
       (\<exists>fl' v'. Mesh_line_walk outerM heights n2 stepindex vec_step vec_const vidx_step vidx_const vidx_h consti (fl, v)
             = Inr (fl', v')
          \<and> length v' - length v = (length vec_step - 1) - length (sum_nonfinite_pairs
               (Mesh_walk_points outerM heights n2 stepindex vec_step vec_const vidx_step vidx_const vidx_h consti))
          \<and> length v' - length v \<le> length vec_step - 1))"
proof -
  have "length (PolyLine_getFragments pts lprop outerM v) - length v = length (sumfinite_pairs (map (proj outerM) pts))"
    by (simp add: PolyLine_count)
  moreover
  { assume "\<forall>k<length vec_step. (if stepindex = 0 then k * n2 + consti else consti * n2 + k) < length heights"
    from Mesh_walk_count[OF this, of outerM vec_const vidx_step vidx_const vidx_h fl v]
    obtain fl' v' where w: "Mesh_line_walk outerM heights n2 stepindex vec_step vec_const vidx_step vidx_const vidx_h consti (fl, v)
             = Inr (fl', v')" "length v' - length v = length (sumfinite_pairs
             (Mesh_walk_points outerM heights n2 stepindex vec_step vec_const vidx_step vidx_const vidx_h consti))"
      by auto
    have "length (Mesh_walk_points outerM heights n2 stepindex vec_step vec_const vidx_step vidx_const vidx_h consti) = length vec_step"
      by (simp add: Mesh_walk_points_def)
    with w sumfinite_pairs_compl[of "Mesh_walk_points outerM heights n2 stepindex vec_step vec_const vidx_step vidx_const vidx_h consti"]
    have "\<exists>fl' v'. Mesh_line_walk outerM heights n2 stepindex vec_step vec_const vidx_step vidx_const vidx_h consti (fl, v)
             = Inr (fl', v')
          \<and> length v' - length v = (length vec_step - 1) - length (sum_nonfinite_pairs
               (Mesh_walk_points outerM heights n2 stepindex vec_step vec_const vidx_step vidx_const vidx_h consti))
          \<and> length v' - length v \<le> length vec_step - 1"
      by auto }
  ultimately show ?thesis
    using sumfinite_pairs_compl[of "map (proj outerM) pts"] endpoint_nonfinite_sum[of "map (proj outerM) pts"]
    by auto
qed

theorem line_walk_segment_count_witness:
  "length (PolyLine_getFragments [Vec3 (Fin 0) (Fin 0) (Fin 0), Vec3 (Fin 1) (Fin 0) (Fin 0)] None identityM4 [])
       - length ([] :: Fragment list)
     = (length [Vec3 (Fin 0) (Fin 0) (Fin 0), Vec3 (Fin 1) (Fin 0) (Fin 0)] - 1)
       - length (sum_nonfinite_pairs (map (proj identityM4) [Vec3 (Fin 0) (Fin 0) (Fin 0), Vec3 (Fin 1) (Fin 0) (Fin 0)]))
   \<and> (\<exists>fl' v'. Mesh_line_walk identityM4 [Fin 0, Fin 1] 1 0 [Fin 0, Fin 1] [Fin 0] 1 2 0 0 (Fragment_init, [])
             = Inr (fl', v')
          \<and> length v' - length ([] :: Fragment list) \<le> length [Fin 0, Fin 1] - 1)"
  using line_walk_segment_count[of "[Vec3 (Fin 0) (Fin 0) (Fin 0), Vec3 (Fin 1) (Fin 0) (Fin 0)]"
      None identityM4 "[]" "[Fin 0, Fin 1]" 0 1 0 "[Fin 0, Fin 1]" "[Fin 0]" 1 2 0 Fragment_init]
  by auto

lemma proj_identity_max:
  "proj identityM4 (Vec3 (Fin DBL_MAX) (Fin 0) (Fin 0)) = Vec3 (Fin DBL_MAX) (Fin 0) (Fin 0)"
  by (simp add: proj_def identityM4_def)

text \<open>
  C3 as stated fails: two equal points whose first coordinate is the largest finite double
  project, under the identity, to two finite points, yet their sum overflows and the one
  segment is not emitted, while no endpoint is non-finite.
\<close>

theorem PolyLine_finite_pair_dropped:
  "length (PolyLine_getFragments [Vec3 (Fin DBL_MAX) (Fin 0) (Fin 0), Vec3 (Fin DBL_MAX) (Fin 0) (Fin 0)] None identityM4 []) - length ([] :: Fragment list)
   \<noteq> (length [Vec3 (Fin DBL_MAX) (Fin 0) (Fin 0), Vec3 (Fin DBL_MAX) (Fin 0) (Fin 0)] - 1)
      - length (endpoint_nonfinite_pairs (map (proj identityM4) [Vec3 (Fin DBL_MAX) (Fin 0) (Fin 0), Vec3 (Fin DBL_MAX) (Fin 0) (Fin 0)]))"
  by (simp add: PolyLine_getFragments_def endpoint_nonfinite_pairs_def proj_identity_max dround_twice_max Let_def)

lemma int32_id: "- (2 ^ 31) \<le> x \<Longrightarrow> x < 2 ^ 31 \<Longrightarrow> int32 x = x"
  by (simp add: int32_def)

lemma upd3:
  "[x, y, z][0 := (w::bool)] = [w, y, z]" "[x, y, z][Suc 0 := w] = [x, w, z]" "[x, y, z][2 := w] = [x, y, w]"
  by (simp_all add: numeral_2_eq_2)

lemma DataMesh_found_unfold:
  "DataMesh_found [a, b, c] =
     (let f0 = [False, False, False];
          f1 = (if a \<le> 2 then f0[a := True] else f0);
          f2 = (if b \<le> 2 then f1[b := True] else f1)
      in (if c \<le> 2 then f2[c := True] else f2))"
  by (simp add: DataMesh_found_def Let_def)

lemma found_small:
  assumes "a \<le> 2" "b \<le> 2" "c \<le> 2"
  shows "(DataMesh_found [a, b, c] ! 0 \<and> DataMesh_found [a, b, c] ! 1 \<and> DataMesh_found [a, b, c] ! 2)
   = (a \<noteq> b \<and> a \<noteq> c \<and> b \<noteq> c)"
proof -
  have a: "a = 0 \<or> a = 1 \<or> a = 2" using assms by arith
  have b: "b = 0 \<or> b = 1 \<or> b = 2" using assms by arith
  have c: "c = 0 \<or> c = 1 \<or> c = 2" using assms by arith
  show ?thesis
    using a b c by (elim disjE) (simp_all add: DataMesh_found_unfold upd3 numeral_2_eq_2)
qed

lemma found_large:
  assumes "2 < a \<or> 2 < b \<or> 2 < c"
  shows "\<not> (DataMesh_found [a, b, c] ! 0 \<and> DataMesh_found [a, b, c] ! 1 \<and> DataMesh_found [a, b, c] ! 2)"
proof -
  have a: "a = 0 \<or> a = 1 \<or> a = 2 \<or> 2 < a" by arith
  have b: "b = 0 \<or> b = 1 \<or> b = 2 \<or> 2 < b" by arith
  have c: "c = 0 \<or> c = 1 \<or> c = 2 \<or> 2 < c" by arith
  show ?thesis
    using a b c assms by (elim disjE) (simp_all add: DataMesh_found_unfold upd3 numeral_2_eq_2)
qed

lemma perm012_iff:
  "(distinct [a, b, c] \<and> set [a, b, c] = {0, 1, 2 :: nat})
   = (a \<le> 2 \<and> b \<le> 2 \<and> c \<le> 2 \<and> a \<noteq> b \<and> a \<noteq> c \<and> b \<noteq> c)"
proof
  assume l: "distinct [a, b, c] \<and> set [a, b, c] = {0, 1, 2 :: nat}"
  then have s: "set [a, b, c] = {0, 1, 2 :: nat}" and d: "distinct [a, b, c]" by (rule conjunct2, rule conjunct1)
  have "a \<in> set [a, b, c]" "b \<in> set [a, b, c]" "c \<in> set [a, b, c]" by simp_all
  then have "a \<in> {0, 1, 2}" "b \<in> {0, 1, 2}" "c \<in> {0, 1, 2}" by (simp_all only: s)
  then have "a \<le> 2" "b \<le> 2" "c \<le> 2" by auto
  with d show "a \<le> 2 \<and> b \<le> 2 \<and> c \<le> 2 \<and> a \<noteq> b \<and> a \<noteq> c \<and> b \<noteq> c" by simp
next
  assume r: "a \<le> 2 \<and> b \<le> 2 \<and> c \<le> 2 \<and> a \<noteq> b \<and> a \<noteq> c \<and> b \<noteq> c"
  then have a: "a = 0 \<or> a = 1 \<or> a = 2" and b: "b = 0 \<or> b = 1 \<or> b = 2" and c: "c = 0 \<or> c = 1 \<or> c = 2"
    by arith+
  have e: "{0, 2, Suc 0} = {0, Suc 0, 2 :: nat}" "{Suc 0, 0, 2} = {0, Suc 0, 2 :: nat}"
    "{Suc 0, 2, 0} = {0, Suc 0, 2 :: nat}" "{2, 0, Suc 0} = {0, Suc 0, 2 :: nat}"
    "{2, Suc 0, 0} = {0, Suc 0, 2 :: nat}" by (simp_all only: insert_commute)
  show "distinct [a, b, c] \<and> set [a, b, c] = {0, 1, 2 :: nat}"
    using a b c r by (elim disjE) (simp_all add: e)
qed

lemma DataMesh_found_iff:
  "(DataMesh_found [a, b, c] ! 0 \<and> DataMesh_found [a, b, c] ! 1 \<and> DataMesh_found [a, b, c] ! 2)
   = (distinct [a, b, c] \<and> set [a, b, c] = {0, 1, 2})"
proof (cases "a \<le> 2 \<and> b \<le> 2 \<and> c \<le> 2")
  case True
  then show ?thesis unfolding perm012_iff using found_small[of a b c] by blast
next
  case False
  then have "2 < a \<or> 2 < b \<or> 2 < c" by arith
  from found_large[OF this] False show ?thesis unfolding perm012_iff by blast
qed


lemma DataMesh_getFragments_unfold:
  "DataMesh_getFragments edges1 edges2 vals idxval idxedge1 idxedge2 highres lprop sprop outerM out =
     (if \<not> (distinct [idxval, idxedge1, idxedge2] \<and> set [idxval, idxedge1, idxedge2] = {0, 1, 2})
      then out\<lparr>stderr := stderr out @ [''DataMesh: invalid indices'' @ [CHR 0x0A]]\<rparr>
      else if int32 (int32 (size_int edges1 - 1) * int32 (size_int edges2 - 1)) \<noteq> size_int vals
      then out\<lparr>stderr := stderr out @ [''DataMesh: invalid size'' @ [CHR 0x0A]]\<rparr>
      else if lprop = None \<and> sprop = None then out
      else out\<lparr>fragvec :=
             fst (fold (\<lambda>i1. fold (DataMesh_cell [idxval, idxedge1, idxedge2] edges1 edges2 vals highres
                                      (Fragment_init\<lparr>ftype := FR_TRIANGLE, surfaceprop := sprop, lineprop := None\<rparr>)
                                      (Fragment_init\<lparr>ftype := FR_LINESEG, surfaceprop := None, lineprop := lprop\<rparr>)
                                      outerM (int32 (size_int edges1 - 1)) (int32 (size_int edges2 - 1)) i1)
                                (map int [0..<nat (int32 (size_int edges2 - 1))]))
                    (map int [0..<nat (int32 (size_int edges1 - 1))])
                    (fragvec out, LineCellTracker_init (length edges1) (length edges2)))\<rparr>)"
proof -
  have e: "(\<not> DataMesh_found [idxval, idxedge1, idxedge2] ! 0 \<or> \<not> DataMesh_found [idxval, idxedge1, idxedge2] ! 1
            \<or> \<not> DataMesh_found [idxval, idxedge1, idxedge2] ! 2)
           = (\<not> (distinct [idxval, idxedge1, idxedge2] \<and> set [idxval, idxedge1, idxedge2] = {0, 1, 2}))"
    using DataMesh_found_iff[of idxval idxedge1 idxedge2] by blast
  show ?thesis
    unfolding DataMesh_getFragments_def Let_def by (simp only: e)
qed

text \<open>
  C10. Two empty edge arrays and one cell value pass the size check, since
  \<open>(0 - 1) * (0 - 1) = 1\<close> in signed arithmetic. The loops over the grid then run from 0
  to below -1, that is not at all: no fragment is appended for any role indices, and with
  valid role indices the output is returned as it was, without a diagnostic.
\<close>

theorem DataMesh_empty_edges_one_value:
  assumes "length vals = 1"
  shows "(int (length ([] :: double list)) - 1) * (int (length ([] :: double list)) - 1) = int (length vals)
     \<and> fragvec (DataMesh_getFragments [] [] vals idxval idxedge1 idxedge2 highres lprop sprop outerM out) = fragvec out
     \<and> (distinct [idxval, idxedge1, idxedge2] \<and> set [idxval, idxedge1, idxedge2] = {0, 1, 2} \<longrightarrow>
          DataMesh_getFragments [] [] vals idxval idxedge1 idxedge2 highres lprop sprop outerM out = out)"
proof -
  have s: "size_int ([] :: double list) = 0" "size_int vals = 1"
    using assms by (simp_all add: size_int_def int32_def)
  show ?thesis
    using assms by (simp add: DataMesh_getFragments_unfold s int32_def del: distinct.simps set_simps)
qed

theorem DataMesh_empty_edges_one_value_witness:
  "DataMesh_getFragments [] [] [Fin 5] 0 1 2 True (Some 0) (Some 0) identityM4 \<lparr>fragvec = [], stderr = []\<rparr>
     = \<lparr>fragvec = [], stderr = []\<rparr>"
  using DataMesh_empty_edges_one_value[of "[Fin 5]" 0 1 2 True "Some 0" "Some 0" identityM4
      "\<lparr>fragvec = [], stderr = []\<rparr>"]
  by simp

text \<open>
  C7. The claim: role indices that are no permutation of 0, 1, 2, or a number of cell
  values other than \<open>(edges1.length - 1) * (edges2.length - 1)\<close>, give a diagnostic and no
  fragment. The check of the size does not keep to it: the product is computed in 32-bit
  \<^verbatim>\<open>int\<close>. With two edge arrays of 65537 elements and no cell value the exact product is
  \<open>65536 * 65536 = 2^32\<close>, which is 0 in 32 bits and so equal to the number of values: the
  input is accepted and nothing is written to \<^verbatim>\<open>stderr\<close>.
\<close>

theorem DataMesh_size_check_wraps:
  "DataMesh_getFragments (replicate 65537 (Fin 0)) (replicate 65537 (Fin 0)) [] 0 1 2 False None None identityM4
       \<lparr>fragvec = [], stderr = []\<rparr>
     = \<lparr>fragvec = [], stderr = []\<rparr>"
proof -
  have s: "size_int (replicate 65537 (Fin 0)) = 65537" "size_int ([] :: double list) = 0"
    by (simp_all add: size_int_def int32_def)
  have p: "distinct [0, 1, 2 :: nat] \<and> set [0, 1, 2 :: nat] = {0, 1, 2}" by simp
  show ?thesis
    using p by (simp add: DataMesh_getFragments_unfold s int32_def del: distinct.simps set_simps)
qed

theorem DataMesh_size_check_wraps_witness:
  "stderr (DataMesh_getFragments (replicate 65537 (Fin 0)) (replicate 65537 (Fin 0)) [] 0 1 2 False None None
             identityM4 \<lparr>fragvec = [], stderr = []\<rparr>) = []"
  using DataMesh_size_check_wraps by simp


lemma best_step_pair:
  "best_step cent ps pe c (bs, ba) =
     (if bs < axis_score cent ps pe c then (axis_score cent ps pe c, c) else (bs, ba))"
  by (simp add: best_step_def)

lemma best_fold:
  "fold (best_step cent ps pe) cs (bs, ba) = (bs', ba') \<Longrightarrow>
   bs \<le> bs' \<and> (\<forall>c\<in>set cs. axis_score cent ps pe c \<le> bs') \<and>
   ((bs' = bs \<and> ba' = ba) \<or>
    (\<exists>i<length cs. cs ! i = ba' \<and> axis_score cent ps pe ba' = bs' \<and> bs < bs' \<and>
        (\<forall>j<i. axis_score cent ps pe (cs ! j) < bs')))"
proof (induction cs arbitrary: bs ba)
  case Nil
  then show ?case by simp
next
  case (Cons c cs)
  let ?sc = "axis_score cent ps pe c"
  show ?case
  proof (cases "bs < ?sc")
    case True
    with Cons.prems have f: "fold (best_step cent ps pe) cs (?sc, c) = (bs', ba')"
      by (simp add: best_step_pair)
    from Cons.IH[OF f] have ih: "?sc \<le> bs'" "\<forall>c\<in>set cs. axis_score cent ps pe c \<le> bs'"
      "(bs' = ?sc \<and> ba' = c) \<or>
       (\<exists>i<length cs. cs ! i = ba' \<and> axis_score cent ps pe ba' = bs' \<and> ?sc < bs' \<and>
          (\<forall>j<i. axis_score cent ps pe (cs ! j) < bs'))"
      by auto
    from ih(3) have "\<exists>i<length (c # cs). (c # cs) ! i = ba' \<and> axis_score cent ps pe ba' = bs' \<and> bs < bs' \<and>
        (\<forall>j<i. axis_score cent ps pe ((c # cs) ! j) < bs')"
    proof
      assume "bs' = ?sc \<and> ba' = c"
      then show ?thesis using True by (intro exI[of _ 0]) simp
    next
      assume "\<exists>i<length cs. cs ! i = ba' \<and> axis_score cent ps pe ba' = bs' \<and> ?sc < bs' \<and>
          (\<forall>j<i. axis_score cent ps pe (cs ! j) < bs')"
      then obtain i where i: "i < length cs" "cs ! i = ba'" "axis_score cent ps pe ba' = bs'" "?sc < bs'"
        "\<forall>j<i. axis_score cent ps pe (cs ! j) < bs'" by blast
      show ?thesis
        using i True by (intro exI[of _ "Suc i"]) (auto simp: less_Suc_eq_0_disj)
    qed
    with ih True show ?thesis by auto
  next
    case False
    with Cons.prems have f: "fold (best_step cent ps pe) cs (bs, ba) = (bs', ba')"
      by (simp add: best_step_pair)
    from Cons.IH[OF f] have ih: "bs \<le> bs'" "\<forall>c\<in>set cs. axis_score cent ps pe c \<le> bs'"
      "(bs' = bs \<and> ba' = ba) \<or>
       (\<exists>i<length cs. cs ! i = ba' \<and> axis_score cent ps pe ba' = bs' \<and> bs < bs' \<and>
          (\<forall>j<i. axis_score cent ps pe (cs ! j) < bs'))"
      by auto
    from ih(3) have "(bs' = bs \<and> ba' = ba) \<or> (\<exists>i<length (c # cs). (c # cs) ! i = ba' \<and> axis_score cent ps pe ba' = bs' \<and> bs < bs' \<and>
        (\<forall>j<i. axis_score cent ps pe ((c # cs) ! j) < bs'))"
    proof
      assume "bs' = bs \<and> ba' = ba" then show ?thesis by simp
    next
      assume "\<exists>i<length cs. cs ! i = ba' \<and> axis_score cent ps pe ba' = bs' \<and> bs < bs' \<and>
          (\<forall>j<i. axis_score cent ps pe (cs ! j) < bs')"
      then obtain i where i: "i < length cs" "cs ! i = ba'" "axis_score cent ps pe ba' = bs'" "bs < bs'"
        "\<forall>j<i. axis_score cent ps pe (cs ! j) < bs'" by blast
      have "\<exists>i<length (c # cs). (c # cs) ! i = ba' \<and> axis_score cent ps pe ba' = bs' \<and> bs < bs' \<and>
        (\<forall>j<i. axis_score cent ps pe ((c # cs) ! j) < bs')"
        using i False by (intro exI[of _ "Suc i"]) (auto simp: less_Suc_eq_0_disj)
      then show ?thesis by simp
    qed
    with ih False show ?thesis by auto
  qed
qed

lemma axis_score_nonneg: "0 \<le> axis_score cent ps pe c"
  by (simp add: axis_score_def Let_def)

lemma best_axis_first_max:
  assumes "choices \<noteq> []"
  shows "\<exists>i<length choices. choices ! i = best_axis cent ps pe choices \<and>
           (\<forall>c\<in>set choices. axis_score cent ps pe c \<le> axis_score cent ps pe (best_axis cent ps pe choices)) \<and>
           (\<forall>j<i. axis_score cent ps pe (choices ! j) < axis_score cent ps pe (best_axis cent ps pe choices))"
proof -
  obtain bs' ba' where f: "fold (best_step cent ps pe) choices (- 1, 0) = (bs', ba')"
    by (cases "fold (best_step cent ps pe) choices (- 1, 0)")
  then have b: "best_axis cent ps pe choices = ba'" by (simp add: best_axis_def)
  from best_fold[OF f] have all: "\<forall>c\<in>set choices. axis_score cent ps pe c \<le> bs'"
    and alt: "(bs' = - 1 \<and> ba' = 0) \<or>
    (\<exists>i<length choices. choices ! i = ba' \<and> axis_score cent ps pe ba' = bs' \<and> - 1 < bs' \<and>
        (\<forall>j<i. axis_score cent ps pe (choices ! j) < bs'))" by auto
  from assms obtain c where "c \<in> set choices" by (cases choices) auto
  with all axis_score_nonneg[of cent ps pe c] have "0 \<le> bs'" by force
  with alt obtain i where "i < length choices" "choices ! i = ba'" "axis_score cent ps pe ba' = bs'"
        "\<forall>j<i. axis_score cent ps pe (choices ! j) < bs'" by auto
  with all b show ?thesis by auto
qed



lemma DBL_MAX_big: "1024 \<le> DBL_MAX"
  by (simp add: DBL_MAX_def)

lemma dround_fin: "- 1024 \<le> r \<Longrightarrow> r \<le> 1024 \<Longrightarrow> dround r = Fin r"
  using DBL_MAX_big by (simp add: dround_def)

lemma proj_identity_fin:
  "- 1024 \<le> a \<Longrightarrow> a \<le> 1024 \<Longrightarrow> - 1024 \<le> b \<Longrightarrow> b \<le> 1024 \<Longrightarrow> - 1024 \<le> c \<Longrightarrow> c \<le> 1024 \<Longrightarrow>
   proj identityM4 (Vec3 (Fin a) (Fin b) (Fin c)) = Vec3 (Fin a) (Fin b) (Fin c)"
  by (simp add: proj_def identityM4_def dround_fin)

lemma upt8: "[0..<8] = [0, 1, 2, 3, 4, 5, 6, 7]"
  by (simp add: upt_conv_Cons)

lemma upt6: "[0..<6] = [0, 1, 2, 3, 4, 5]"
  by (simp add: upt_conv_Cons)

lemma upt4: "[0..<4] = [0, 1, 2, 3]"
  by (simp add: upt_conv_Cons)

lemma axis_score_weights:
  "axis_score cent ps pe c =
     (if is_left cent (edge_mid ps pe c) then 10 else 0)
     + (if is_below cent (edge_mid ps pe c) then 11 else 0)
     + (if is_front cent (edge_mid ps pe c) then 12 else 0)"
  by (simp add: axis_score_def edge_mid_def is_left_def is_below_def is_front_def Let_def)

lemma axchoices_nonempty: "0 < n \<Longrightarrow> axchoices lc corners ps pe n \<noteq> []"
  by (auto simp: axchoices_def Let_def)

lemma axchoices_subset: "set (axchoices lc corners ps pe n) \<subseteq> {0..<n}"
  by (auto simp: axchoices_def Let_def)

text \<open>
  C2, as amended. With at least one candidate edge, the list of viable edges is not
  empty, and the edge that \<^verbatim>\<open>AxisTickLabels::getFragments\<close> chooses is the first viable
  edge of the highest score. The score adds 10 for a midpoint left of the centre of the
  projected corners, 11 for one below it and 12 for one in front of it: the weights are
  close together, not powers of two, so an edge that is only in front scores 12 and an
  edge that is only below and left scores 21.
\<close>

theorem axis_choice_first_max:
  assumes "0 < min (length starts) (length ends)"
  shows "(let numentries = min (length starts) (length ends);
              corners = scenecorners box1 box2 outerM;
              pt_starts = map (\<lambda>axis. proj outerM (starts ! axis)) [0..<numentries];
              pt_ends = map (\<lambda>axis. proj outerM (ends ! axis)) [0..<numentries];
              cent = cube_centre corners;
              choices = axchoices lc corners pt_starts pt_ends numentries;
              best = AxisTickLabels_bestaxis lc box1 box2 starts ends outerM
          in choices \<noteq> []
             \<and> (\<exists>i<length choices. choices ! i = best
                   \<and> (\<forall>c\<in>set choices. axis_score cent pt_starts pt_ends c \<le> axis_score cent pt_starts pt_ends best)
                   \<and> (\<forall>j<i. axis_score cent pt_starts pt_ends (choices ! j) < axis_score cent pt_starts pt_ends best))
             \<and> (\<forall>c. axis_score cent pt_starts pt_ends c =
                     (if is_left cent (edge_mid pt_starts pt_ends c) then 10 else 0)
                     + (if is_below cent (edge_mid pt_starts pt_ends c) then 11 else 0)
                     + (if is_front cent (edge_mid pt_starts pt_ends c) then 12 else 0))
             \<and> (\<forall>a b. is_front cent (edge_mid pt_starts pt_ends a) \<and> \<not> is_below cent (edge_mid pt_starts pt_ends a)
                        \<and> \<not> is_left cent (edge_mid pt_starts pt_ends a)
                        \<and> \<not> is_front cent (edge_mid pt_starts pt_ends b) \<and> is_below cent (edge_mid pt_starts pt_ends b)
                        \<and> is_left cent (edge_mid pt_starts pt_ends b)
                      \<longrightarrow> axis_score cent pt_starts pt_ends a = 12 \<and> axis_score cent pt_starts pt_ends b = 21))"
proof -
  let ?n = "min (length starts) (length ends)"
  let ?corners = "scenecorners box1 box2 outerM"
  let ?ps = "map (\<lambda>axis. proj outerM (starts ! axis)) [0..<?n]"
  let ?pe = "map (\<lambda>axis. proj outerM (ends ! axis)) [0..<?n]"
  let ?choices = "axchoices lc ?corners ?ps ?pe ?n"
  have ne: "?choices \<noteq> []" using assms by (rule axchoices_nonempty)
  have b: "AxisTickLabels_bestaxis lc box1 box2 starts ends outerM = best_axis (cube_centre ?corners) ?ps ?pe ?choices"
    by (simp add: AxisTickLabels_bestaxis_def Let_def)
  show ?thesis
    unfolding Let_def b
    using ne best_axis_first_max[OF ne, of "cube_centre ?corners" ?ps ?pe]
    by (simp add: axis_score_weights)
qed

theorem axis_choice_first_max_witness:
  "AxisTickLabels_bestaxis no_line_crosses example_box1 example_box2 example_starts example_ends identityM4
     \<in> set (axchoices no_line_crosses (scenecorners example_box1 example_box2 identityM4)
               (map (\<lambda>axis. proj identityM4 (example_starts ! axis)) [0..<min (length example_starts) (length example_ends)])
               (map (\<lambda>axis. proj identityM4 (example_ends ! axis)) [0..<min (length example_starts) (length example_ends)])
               (min (length example_starts) (length example_ends)))"
proof -
  have h: "0 < min (length example_starts) (length example_ends)"
    by (simp add: example_starts_def example_ends_def)
  from axis_choice_first_max[OF h, of example_box1 example_box2 identityM4 no_line_crosses]
  show ?thesis
    unfolding Let_def by (metis nth_mem)
qed

lemma example_centre:
  "cube_centre (scenecorners example_box1 example_box2 identityM4) = Vec3 (Fin 0) (Fin 0) (Fin 0)"
  by (simp add: cube_centre_def scenecorners_def example_box1_def example_box2_def upt8
      proj_identity_fin dround_fin)

lemma example_proj:
  "map (\<lambda>axis. proj identityM4 (example_starts ! axis)) [0..<min (length example_starts) (length example_ends)] = example_starts"
  "map (\<lambda>axis. proj identityM4 (example_ends ! axis)) [0..<min (length example_starts) (length example_ends)] = example_ends"
  by (simp_all add: example_starts_def example_ends_def upt_conv_Cons proj_identity_fin)

lemma example_mid:
  "edge_mid example_starts example_ends 0 = Vec3 (Fin 2) (Fin 0) (Fin 1)"
  "edge_mid example_starts example_ends (Suc 0) = Vec3 (Fin 0) (Fin 2) (Fin (- 1))"
  by (simp_all add: edge_mid_def example_starts_def example_ends_def dround_fin)

lemma example_scores:
  "axis_score (Vec3 (Fin 0) (Fin 0) (Fin 0)) example_starts example_ends 0 = 12"
  "axis_score (Vec3 (Fin 0) (Fin 0) (Fin 0)) example_starts example_ends (Suc 0) = 21"
  by (simp_all add: axis_score_weights example_mid is_left_def is_below_def is_front_def dgt_def)

lemma example_choices:
  "axchoices no_line_crosses corners ps pe 2 = [0, 1]"
  by (simp add: axchoices_def axis_overlap_def faceOverlap_def no_line_crosses_def Let_def upt_conv_Cons)

text \<open>
  C2 as stated fails. In the example, edge 0 meets only the front criterion and edge 1
  only the bottom and left criteria; both are viable. Edge 0 scores 12, edge 1 scores
  21, and edge 1 is chosen.
\<close>

theorem front_only_edge_not_chosen:
  "is_front (cube_centre (scenecorners example_box1 example_box2 identityM4)) (edge_mid example_starts example_ends 0)
   \<and> \<not> is_below (cube_centre (scenecorners example_box1 example_box2 identityM4)) (edge_mid example_starts example_ends 0)
   \<and> \<not> is_left (cube_centre (scenecorners example_box1 example_box2 identityM4)) (edge_mid example_starts example_ends 0)
   \<and> \<not> is_front (cube_centre (scenecorners example_box1 example_box2 identityM4)) (edge_mid example_starts example_ends 1)
   \<and> is_below (cube_centre (scenecorners example_box1 example_box2 identityM4)) (edge_mid example_starts example_ends 1)
   \<and> is_left (cube_centre (scenecorners example_box1 example_box2 identityM4)) (edge_mid example_starts example_ends 1)
   \<and> axis_score (cube_centre (scenecorners example_box1 example_box2 identityM4)) example_starts example_ends 0 = 12
   \<and> axis_score (cube_centre (scenecorners example_box1 example_box2 identityM4)) example_starts example_ends 1 = 21
   \<and> AxisTickLabels_bestaxis no_line_crosses example_box1 example_box2 example_starts example_ends identityM4 = 1"
proof -
  have n: "min (length example_starts) (length example_ends) = 2"
    by (simp add: example_starts_def example_ends_def)
  have b: "AxisTickLabels_bestaxis no_line_crosses example_box1 example_box2 example_starts example_ends identityM4 = 1"
    unfolding AxisTickLabels_bestaxis_def Let_def example_proj example_centre
    by (simp add: n example_choices best_axis_def best_step_pair example_scores)
  show ?thesis
    unfolding example_centre
    by (simp add: b[unfolded example_centre] example_scores example_mid is_left_def is_below_def is_front_def dgt_def)
qed


lemma fold_append_map: "fold (\<lambda>i v. v @ [g i]) xs v = v @ map g xs"
  by (induction xs arbitrary: v) simp_all

lemma AxisTickLabels_tick_fields:
  "ftype (AxisTickLabels_tick axstart delta tickfracs outerM fp i) = ftype fp"
  "index (AxisTickLabels_tick axstart delta tickfracs outerM fp i) = i"
  by (simp_all add: AxisTickLabels_tick_def Let_def)

text \<open>
  C8. With at least one candidate edge: when no edge passes the filter of the face
  crossings, all edges are taken as viable; in every case the chosen edge is one of the
  viable edges, and one path marker per tick fraction is appended, tick \<open>i\<close> with
  index \<open>i\<close>, along the chosen edge.
\<close>

theorem AxisTickLabels_always_places:
  assumes "0 < min (length starts) (length ends)"
  shows "(let numentries = min (length starts) (length ends);
              corners = scenecorners box1 box2 outerM;
              pt_starts = map (\<lambda>axis. proj outerM (starts ! axis)) [0..<numentries];
              pt_ends = map (\<lambda>axis. proj outerM (ends ! axis)) [0..<numentries];
              best = AxisTickLabels_bestaxis lc box1 box2 starts ends outerM;
              fp = Fragment_init\<lparr>ftype := FR_PATH, surfaceprop := None, lineprop := None, pathsize := Fin 1\<rparr>;
              result = AxisTickLabels_getFragments lc box1 box2 tickfracs starts ends outerM v
          in (filter (\<lambda>axis. \<not> axis_overlap lc corners pt_starts pt_ends axis) [0..<numentries] = []
                \<longrightarrow> axchoices lc corners pt_starts pt_ends numentries = [0..<numentries])
             \<and> best \<in> set (axchoices lc corners pt_starts pt_ends numentries)
             \<and> best < numentries
             \<and> result = v @ map (AxisTickLabels_tick (starts ! best) (vsub3 (ends ! best) (starts ! best))
                                    tickfracs outerM fp) [0..<length tickfracs]
             \<and> length result = length v + length tickfracs
             \<and> (\<forall>i<length tickfracs. ftype (result ! (length v + i)) = FR_PATH
                                        \<and> index (result ! (length v + i)) = i))"
proof -
  let ?n = "min (length starts) (length ends)"
  let ?corners = "scenecorners box1 box2 outerM"
  let ?ps = "map (\<lambda>axis. proj outerM (starts ! axis)) [0..<?n]"
  let ?pe = "map (\<lambda>axis. proj outerM (ends ! axis)) [0..<?n]"
  let ?choices = "axchoices lc ?corners ?ps ?pe ?n"
  let ?best = "AxisTickLabels_bestaxis lc box1 box2 starts ends outerM"
  let ?fp = "Fragment_init\<lparr>ftype := FR_PATH, surfaceprop := None, lineprop := None, pathsize := Fin 1\<rparr>"
  let ?result = "AxisTickLabels_getFragments lc box1 box2 tickfracs starts ends outerM v"
  have ne: "?choices \<noteq> []" using assms by (rule axchoices_nonempty)
  have b: "?best = best_axis (cube_centre ?corners) ?ps ?pe ?choices"
    by (simp add: AxisTickLabels_bestaxis_def Let_def)
  from best_axis_first_max[OF ne, of "cube_centre ?corners" ?ps ?pe]
  have mem: "?best \<in> set ?choices" unfolding b by (metis nth_mem)
  with axchoices_subset[of lc ?corners ?ps ?pe ?n] have lt: "?best < ?n" by auto
  have fb: "filter (\<lambda>axis. \<not> axis_overlap lc ?corners ?ps ?pe axis) [0..<?n] = [] \<longrightarrow> ?choices = [0..<?n]"
    by (simp add: axchoices_def Let_def)
  have res: "?result = v @ map (AxisTickLabels_tick (starts ! ?best) (vsub3 (ends ! ?best) (starts ! ?best))
                                    tickfracs outerM ?fp) [0..<length tickfracs]"
  proof -
    have "min (length starts) (length ends) \<noteq> 0" using assms by simp
    then show ?thesis
      unfolding AxisTickLabels_getFragments_def Let_def fold_append_map by (simp only: if_False)
  qed
  have len: "length ?result = length v + length tickfracs"
    by (simp add: res)
  have each: "\<forall>i<length tickfracs. ftype (?result ! (length v + i)) = FR_PATH \<and> index (?result ! (length v + i)) = i"
    by (simp add: res AxisTickLabels_tick_fields)
  show ?thesis
    unfolding Let_def using fb mem lt res len each by blast
qed

lemma every_line_overlaps: "axis_overlap every_line_crosses corners ps pe axis"
  by (simp add: axis_overlap_def faceOverlap_def every_line_crosses_def upt6 upt4 Let_def)

theorem AxisTickLabels_always_places_witness:
  "filter (\<lambda>axis. \<not> axis_overlap every_line_crosses (scenecorners example_box1 example_box2 identityM4)
              (map (\<lambda>axis. proj identityM4 (example_starts ! axis)) [0..<min (length example_starts) (length example_ends)])
              (map (\<lambda>axis. proj identityM4 (example_ends ! axis)) [0..<min (length example_starts) (length example_ends)])
              axis)
          [0..<min (length example_starts) (length example_ends)] = []
   \<and> length (AxisTickLabels_getFragments every_line_crosses example_box1 example_box2 [Fin 0, Fin (1/2), Fin 1]
                example_starts example_ends identityM4 []) = 3"
proof -
  have h: "0 < min (length example_starts) (length example_ends)"
    by (simp add: example_starts_def example_ends_def)
  from AxisTickLabels_always_places[OF h, of example_box1 example_box2 identityM4 every_line_crosses
      "[Fin 0, Fin (1/2), Fin 1]" "[]"]
  have "length (AxisTickLabels_getFragments every_line_crosses example_box1 example_box2 [Fin 0, Fin (1/2), Fin 1]
                example_starts example_ends identityM4 []) = length ([] :: Fragment list) + length [Fin 0, Fin (1/2), Fin 1]"
    unfolding Let_def by blast
  then show ?thesis
    by (simp add: every_line_overlaps)
qed

lemma efold_append:
  "efold f (xs @ ys) s = (case efold f xs s of Inl e \<Rightarrow> Inl e | Inr s' \<Rightarrow> efold f ys s')"
  by (induction xs arbitrary: s) (auto split: sum.splits)

lemma isfinite4_vadd4: "isfinite4 (vadd4 a b) \<Longrightarrow> isfinite4 a \<and> isfinite4 b"
  by (cases a; cases b) (auto dest: isfinite_dadd)

lemma Mesh_corners_in_range:
  assumes "length pos1 * length pos2 \<le> length heights" "i1 + 1 < length pos1" "i2 + 1 < length pos2"
  shows "Mesh_corners pos1 pos2 heights vidxs i1 i2 = Inr (Mesh_cell_pts pos1 pos2 heights vidxs i1 i2)"
proof -
  have r: "\<And>a b. a \<le> 1 \<Longrightarrow> b \<le> 1 \<Longrightarrow> (i1 + a) * length pos2 + (i2 + b) < length heights"
  proof -
    fix a b :: nat assume ab: "a \<le> 1" "b \<le> 1"
    have "(i1 + a) * length pos2 + (i2 + b) < (i1 + a) * length pos2 + length pos2"
      using assms(3) ab by simp
    also have "\<dots> = (i1 + a + 1) * length pos2" by simp
    also have "\<dots> \<le> length pos1 * length pos2"
      using assms(2) ab by (intro mult_le_mono1) simp
    finally show "(i1 + a) * length pos2 + (i2 + b) < length heights" using assms(1) by simp
  qed
  have r00: "i1 * length pos2 + i2 < length heights" using r[of 0 0] by simp
  have r10: "(i1 + 1) * length pos2 + i2 < length heights" using r[of 1 0] by simp
  have r01: "i1 * length pos2 + (i2 + 1) < length heights" using r[of 0 1] by simp
  have r11: "(i1 + 1) * length pos2 + (i2 + 1) < length heights" using r[of 1 1] by simp
  show ?thesis
    using r00 r10 r01 r11
    by (cases vidxs) (simp add: Mesh_corners_def Mesh_corner_def Mesh_cell_pts_def vec_at_def Let_def)
qed

lemma Mesh_triangle_append:
  "Mesh_triangle outerM p i1 i2 tri fs v = v @ Mesh_triangle outerM p i1 i2 tri fs []"
  by (simp add: Mesh_triangle_def Let_def)

lemma Mesh_surface_cell_in_range:
  assumes "length pos1 * length pos2 \<le> length heights" "i1 + 1 < length pos1" "i2 + 1 < length pos2"
  shows "Mesh_surface_cell outerM pos1 pos2 heights vidxs i1 i2 (fs, v) =
         Inr (fs\<lparr>index := index fs + 1\<rparr>,
              v @ Mesh_cell_triangles outerM (Mesh_cell_pts pos1 pos2 heights vidxs i1 i2) i1 i2 fs)"
proof -
  let ?p = "Mesh_cell_pts pos1 pos2 heights vidxs i1 i2"
  let ?t0 = "Mesh_triangle outerM ?p i1 i2 0 fs []"
  have a: "Mesh_triangle outerM ?p i1 i2 0 fs v = v @ ?t0"
    by (rule Mesh_triangle_append)
  have b: "Mesh_triangle outerM ?p i1 i2 1 fs (v @ ?t0) = (v @ ?t0) @ Mesh_triangle outerM ?p i1 i2 1 fs []"
    by (rule Mesh_triangle_append)
  have c: "Mesh_cell_triangles outerM ?p i1 i2 fs = ?t0 @ Mesh_triangle outerM ?p i1 i2 1 fs []"
    unfolding Mesh_cell_triangles_def by (rule Mesh_triangle_append)
  show ?thesis
    unfolding Mesh_surface_cell_def Mesh_corners_in_range[OF assms] using a b c by simp
qed

lemma Mesh_surface_row:
  assumes "length pos1 * length pos2 \<le> length heights" "i1 + 1 < length pos1" "m \<le> length pos2 - 1"
  shows "efold (Mesh_surface_cell outerM pos1 pos2 heights vidxs i1) [0..<m] (fs, v) =
         Inr (fs\<lparr>index := index fs + m\<rparr>,
              v @ concat (map (\<lambda>i2. Mesh_cell_triangles outerM (Mesh_cell_pts pos1 pos2 heights vidxs i1 i2) i1 i2
                                        (fs\<lparr>index := index fs + i2\<rparr>)) [0..<m]))"
  using assms(3)
proof (induction m)
  case 0
  then show ?case by simp
next
  case (Suc m)
  then have m: "m + 1 < length pos2" by simp
  from Suc have ih: "efold (Mesh_surface_cell outerM pos1 pos2 heights vidxs i1) [0..<m] (fs, v) =
         Inr (fs\<lparr>index := index fs + m\<rparr>,
              v @ concat (map (\<lambda>i2. Mesh_cell_triangles outerM (Mesh_cell_pts pos1 pos2 heights vidxs i1 i2) i1 i2
                                        (fs\<lparr>index := index fs + i2\<rparr>)) [0..<m]))" by simp
  show ?case
    by (simp add: efold_append ih Mesh_surface_cell_in_range[OF assms(1,2) m])
qed


lemma Mesh_surface_rows:
  assumes "length pos1 * length pos2 \<le> length heights" "m \<le> length pos2 - 1" "k \<le> length pos1 - 1"
  shows "efold (\<lambda>i1. efold (Mesh_surface_cell outerM pos1 pos2 heights vidxs i1) [0..<m])
           [0..<k] (fs, v) =
         Inr (fs\<lparr>index := index fs + k * m\<rparr>,
              v @ concat (map (\<lambda>i1. concat (map (\<lambda>i2.
                    Mesh_cell_triangles outerM (Mesh_cell_pts pos1 pos2 heights vidxs i1 i2) i1 i2
                      (fs\<lparr>index := index fs + (i1 * m + i2)\<rparr>))
                    [0..<m])) [0..<k]))"
  using assms(3)
proof (induction k)
  case 0
  then show ?case by simp
next
  case (Suc k)
  then have k: "k + 1 < length pos1" by simp
  let ?fs = "fs\<lparr>index := index fs + k * m\<rparr>"
  let ?v = "v @ concat (map (\<lambda>i1. concat (map (\<lambda>i2.
                    Mesh_cell_triangles outerM (Mesh_cell_pts pos1 pos2 heights vidxs i1 i2) i1 i2
                      (fs\<lparr>index := index fs + (i1 * m + i2)\<rparr>))
                    [0..<m])) [0..<k])"
  from Suc have ih: "efold (\<lambda>i1. efold (Mesh_surface_cell outerM pos1 pos2 heights vidxs i1) [0..<m])
           [0..<k] (fs, v) = Inr (?fs, ?v)" by simp
  have e1: "?fs\<lparr>index := index ?fs + m\<rparr> = fs\<lparr>index := index fs + Suc k * m\<rparr>"
    by (simp add: add.commute add.left_commute)
  have e2: "\<And>i2. ?fs\<lparr>index := index ?fs + i2\<rparr> = fs\<lparr>index := index fs + (k * m + i2)\<rparr>"
    by (simp add: add.assoc)
  have row: "efold (Mesh_surface_cell outerM pos1 pos2 heights vidxs k) [0..<m] (?fs, ?v) =
      Inr (fs\<lparr>index := index fs + Suc k * m\<rparr>,
           ?v @ concat (map (\<lambda>i2. Mesh_cell_triangles outerM (Mesh_cell_pts pos1 pos2 heights vidxs k i2) k i2
                                        (fs\<lparr>index := index fs + (k * m + i2)\<rparr>)) [0..<m]))"
    unfolding Mesh_surface_row[OF assms(1) k assms(2)] e1 e2 by (rule refl)
  have "efold (\<lambda>i1. efold (Mesh_surface_cell outerM pos1 pos2 heights vidxs i1) [0..<m])
           [0..<Suc k] (fs, v) =
        efold (Mesh_surface_cell outerM pos1 pos2 heights vidxs k) [0..<m] (?fs, ?v)"
    by (simp add: efold_append ih del: mult_Suc split: sum.splits)
  then show ?case
    unfolding row by (simp del: mult_Suc)
qed

lemma tidxs_lt4: "tri < 2 \<Longrightarrow> k < 3 \<Longrightarrow> tidxs ! ((i1 + i2) mod 2) ! tri ! k < 4"
proof -
  assume t: "tri < 2" and k: "k < 3"
  have m: "(i1 + i2) mod 2 = 0 \<or> (i1 + i2) mod 2 = 1" by arith
  have t': "tri = 0 \<or> tri = 1" using t by arith
  have k': "k = 0 \<or> k = 1 \<or> k = 2" using k by arith
  show ?thesis
    using m t' k' by (elim disjE) (simp_all add: tidxs_def)
qed

lemma Mesh_cell_pts_length: "length (Mesh_cell_pts pos1 pos2 heights vidxs i1 i2) = 4"
  by (cases vidxs) (simp add: Mesh_cell_pts_def)

lemma Mesh_triangle_alt:
  assumes "length p = 4" "tri < 2"
  shows "Mesh_triangle outerM p i1 i2 tri fs [] =
     (if isfinite4 (Mesh_triangle_sum p i1 i2 tri) then [Mesh_triangle_fragment outerM p i1 i2 tri fs] else [])"
  using assms tidxs_lt4[of tri 0 i1 i2] tidxs_lt4[of tri 1 i1 i2] tidxs_lt4[of tri 2 i1 i2]
  by (simp add: Mesh_triangle_def Mesh_triangle_sum_def Mesh_triangle_fragment_def Let_def)

lemma Mesh_cell_triangles_alt:
  assumes "length p = 4"
  shows "Mesh_cell_triangles outerM p i1 i2 fs =
     (if isfinite4 (Mesh_triangle_sum p i1 i2 0) then [Mesh_triangle_fragment outerM p i1 i2 0 fs] else [])
     @ (if isfinite4 (Mesh_triangle_sum p i1 i2 1) then [Mesh_triangle_fragment outerM p i1 i2 1 fs] else [])"
proof -
  have "Mesh_cell_triangles outerM p i1 i2 fs =
        Mesh_triangle outerM p i1 i2 0 fs [] @ Mesh_triangle outerM p i1 i2 1 fs []"
    unfolding Mesh_cell_triangles_def by (rule Mesh_triangle_append)
  then show ?thesis
    by (simp add: Mesh_triangle_alt[OF assms])
qed

lemma Mesh_triangle_sum_finite:
  "isfinite4 (Mesh_triangle_sum p i1 i2 tri) \<Longrightarrow>
     isfinite4 (p ! (tidxs ! ((i1 + i2) mod 2) ! tri ! 0))
   \<and> isfinite4 (p ! (tidxs ! ((i1 + i2) mod 2) ! tri ! 1))
   \<and> isfinite4 (p ! (tidxs ! ((i1 + i2) mod 2) ! tri ! 2))"
  unfolding Mesh_triangle_sum_def by (blast dest: isfinite4_vadd4)

lemma Mesh_getSurfaceFragments_closed:
  assumes "length pos1 * length pos2 \<le> length heights"
  shows "Mesh_getSurfaceFragments pos1 pos2 heights dirn (Some sp) outerM v =
     Inr (v @ concat (map (\<lambda>i1. concat (map (\<lambda>i2.
            Mesh_cell_triangles outerM (Mesh_cell_pts pos1 pos2 heights (getVecIdxs dirn) i1 i2) i1 i2
              (Fragment_init\<lparr>ftype := FR_TRIANGLE, surfaceprop := Some sp, lineprop := None,
                              index := i1 * (length pos2 - 1) + i2\<rparr>))
            [0..<length pos2 - 1])) [0..<length pos1 - 1]))"
  unfolding Mesh_getSurfaceFragments_def Let_def Mesh_surface_rows[OF assms order_refl order_refl]
  by (simp add: Fragment_init_def)


text \<open>
  C6, as amended. For a Mesh with a surface style whose height array holds an entry for
  every grid point, \<^verbatim>\<open>getSurfaceFragments\<close> returns, and appends for the cells in row
  order the triangles of the split \<open>tidxs[(i1+i2)%2]\<close>, each with the running cell index:
  triangle \<open>tri\<close> of a cell exactly when the sum of its three corners before projection
  is finite. A finite sum needs the three corners to be finite. One cell with two
  finite sums gives exactly its two triangles.
\<close>

theorem Mesh_surface_triangles:
  "(length pos1 * length pos2 \<le> length heights \<longrightarrow>
      Mesh_getSurfaceFragments pos1 pos2 heights dirn (Some sp) outerM v =
        Inr (v @ concat (map (\<lambda>i1. concat (map (\<lambda>i2.
               Mesh_cell_triangles outerM (Mesh_cell_pts pos1 pos2 heights (getVecIdxs dirn) i1 i2) i1 i2
                 (Fragment_init\<lparr>ftype := FR_TRIANGLE, surfaceprop := Some sp, lineprop := None,
                                 index := i1 * (length pos2 - 1) + i2\<rparr>))
               [0..<length pos2 - 1])) [0..<length pos1 - 1])))
   \<and> Mesh_cell_triangles outerM (Mesh_cell_pts pos1 pos2 heights vidxs i1 i2) i1 i2 fs =
       (if isfinite4 (Mesh_triangle_sum (Mesh_cell_pts pos1 pos2 heights vidxs i1 i2) i1 i2 0)
        then [Mesh_triangle_fragment outerM (Mesh_cell_pts pos1 pos2 heights vidxs i1 i2) i1 i2 0 fs] else [])
       @ (if isfinite4 (Mesh_triangle_sum (Mesh_cell_pts pos1 pos2 heights vidxs i1 i2) i1 i2 1)
          then [Mesh_triangle_fragment outerM (Mesh_cell_pts pos1 pos2 heights vidxs i1 i2) i1 i2 1 fs] else [])
   \<and> (isfinite4 (Mesh_triangle_sum p i1 i2 tri) \<longrightarrow>
         isfinite4 (p ! (tidxs ! ((i1 + i2) mod 2) ! tri ! 0))
       \<and> isfinite4 (p ! (tidxs ! ((i1 + i2) mod 2) ! tri ! 1))
       \<and> isfinite4 (p ! (tidxs ! ((i1 + i2) mod 2) ! tri ! 2)))
   \<and> (length pos1 = 2 \<and> length pos2 = 2 \<and> 4 \<le> length heights
       \<and> isfinite4 (Mesh_triangle_sum (Mesh_cell_pts pos1 pos2 heights (getVecIdxs dirn) 0 0) 0 0 0)
       \<and> isfinite4 (Mesh_triangle_sum (Mesh_cell_pts pos1 pos2 heights (getVecIdxs dirn) 0 0) 0 0 1) \<longrightarrow>
       Mesh_getSurfaceFragments pos1 pos2 heights dirn (Some sp) outerM v =
         Inr (v @ [Mesh_triangle_fragment outerM (Mesh_cell_pts pos1 pos2 heights (getVecIdxs dirn) 0 0) 0 0 0
                     (Fragment_init\<lparr>ftype := FR_TRIANGLE, surfaceprop := Some sp, lineprop := None, index := 0\<rparr>),
                   Mesh_triangle_fragment outerM (Mesh_cell_pts pos1 pos2 heights (getVecIdxs dirn) 0 0) 0 0 1
                     (Fragment_init\<lparr>ftype := FR_TRIANGLE, surfaceprop := Some sp, lineprop := None, index := 0\<rparr>)]))"
proof (intro conjI impI)
  assume "length pos1 * length pos2 \<le> length heights"
  then show "Mesh_getSurfaceFragments pos1 pos2 heights dirn (Some sp) outerM v =
        Inr (v @ concat (map (\<lambda>i1. concat (map (\<lambda>i2.
               Mesh_cell_triangles outerM (Mesh_cell_pts pos1 pos2 heights (getVecIdxs dirn) i1 i2) i1 i2
                 (Fragment_init\<lparr>ftype := FR_TRIANGLE, surfaceprop := Some sp, lineprop := None,
                                 index := i1 * (length pos2 - 1) + i2\<rparr>))
               [0..<length pos2 - 1])) [0..<length pos1 - 1]))"
    by (rule Mesh_getSurfaceFragments_closed)
next
  show "Mesh_cell_triangles outerM (Mesh_cell_pts pos1 pos2 heights vidxs i1 i2) i1 i2 fs =
       (if isfinite4 (Mesh_triangle_sum (Mesh_cell_pts pos1 pos2 heights vidxs i1 i2) i1 i2 0)
        then [Mesh_triangle_fragment outerM (Mesh_cell_pts pos1 pos2 heights vidxs i1 i2) i1 i2 0 fs] else [])
       @ (if isfinite4 (Mesh_triangle_sum (Mesh_cell_pts pos1 pos2 heights vidxs i1 i2) i1 i2 1)
          then [Mesh_triangle_fragment outerM (Mesh_cell_pts pos1 pos2 heights vidxs i1 i2) i1 i2 1 fs] else [])"
    by (rule Mesh_cell_triangles_alt[OF Mesh_cell_pts_length])
next
  assume "isfinite4 (Mesh_triangle_sum p i1 i2 tri)"
  from Mesh_triangle_sum_finite[OF this]
  show "isfinite4 (p ! (tidxs ! ((i1 + i2) mod 2) ! tri ! 0))"
    "isfinite4 (p ! (tidxs ! ((i1 + i2) mod 2) ! tri ! 1))"
    "isfinite4 (p ! (tidxs ! ((i1 + i2) mod 2) ! tri ! 2))" by simp_all
next
  assume a: "length pos1 = 2 \<and> length pos2 = 2 \<and> 4 \<le> length heights
       \<and> isfinite4 (Mesh_triangle_sum (Mesh_cell_pts pos1 pos2 heights (getVecIdxs dirn) 0 0) 0 0 0)
       \<and> isfinite4 (Mesh_triangle_sum (Mesh_cell_pts pos1 pos2 heights (getVecIdxs dirn) 0 0) 0 0 1)"
  then have h: "length pos1 * length pos2 \<le> length heights" by simp
  show "Mesh_getSurfaceFragments pos1 pos2 heights dirn (Some sp) outerM v =
         Inr (v @ [Mesh_triangle_fragment outerM (Mesh_cell_pts pos1 pos2 heights (getVecIdxs dirn) 0 0) 0 0 0
                     (Fragment_init\<lparr>ftype := FR_TRIANGLE, surfaceprop := Some sp, lineprop := None, index := 0\<rparr>),
                   Mesh_triangle_fragment outerM (Mesh_cell_pts pos1 pos2 heights (getVecIdxs dirn) 0 0) 0 0 1
                     (Fragment_init\<lparr>ftype := FR_TRIANGLE, surfaceprop := Some sp, lineprop := None, index := 0\<rparr>)])"
    unfolding Mesh_getSurfaceFragments_closed[OF h]
    using a by (simp add: Mesh_cell_triangles_alt[OF Mesh_cell_pts_length])
qed

lemma flat_cell_pts:
  "Mesh_cell_pts [Fin 0, Fin 1] [Fin 0, Fin 1] [h, h, h, h] (getVecIdxs X_DIRN) 0 0 =
     [Vec4 h (Fin 0) (Fin 0) (Fin 1), Vec4 h (Fin 1) (Fin 0) (Fin 1),
      Vec4 h (Fin 0) (Fin 1) (Fin 1), Vec4 h (Fin 1) (Fin 1) (Fin 1)]"
  by (simp add: Mesh_cell_pts_def)

lemma flat_cell_sums:
  "Mesh_triangle_sum [Vec4 h (Fin 0) (Fin 0) (Fin 1), Vec4 h (Fin 1) (Fin 0) (Fin 1),
      Vec4 h (Fin 0) (Fin 1) (Fin 1), Vec4 h (Fin 1) (Fin 1) (Fin 1)] 0 0 0
     = Vec4 (dadd (dadd h h) h) (Fin 1) (Fin 1) (Fin 3)"
  "Mesh_triangle_sum [Vec4 h (Fin 0) (Fin 0) (Fin 1), Vec4 h (Fin 1) (Fin 0) (Fin 1),
      Vec4 h (Fin 0) (Fin 1) (Fin 1), Vec4 h (Fin 1) (Fin 1) (Fin 1)] 0 0 (Suc 0)
     = Vec4 (dadd (dadd h h) h) (Fin 2) (Fin 2) (Fin 3)"
  by (simp_all add: Mesh_triangle_sum_def tidxs_def dround_fin)

theorem Mesh_surface_triangles_witness:
  "Mesh_getSurfaceFragments [Fin 0, Fin 1] [Fin 0, Fin 1] [Fin 5, Fin 5, Fin 5, Fin 5] X_DIRN (Some 0) identityM4 [] =
     Inr [Mesh_triangle_fragment identityM4
            (Mesh_cell_pts [Fin 0, Fin 1] [Fin 0, Fin 1] [Fin 5, Fin 5, Fin 5, Fin 5] (getVecIdxs X_DIRN) 0 0) 0 0 0
            (Fragment_init\<lparr>ftype := FR_TRIANGLE, surfaceprop := Some 0, lineprop := None, index := 0\<rparr>),
          Mesh_triangle_fragment identityM4
            (Mesh_cell_pts [Fin 0, Fin 1] [Fin 0, Fin 1] [Fin 5, Fin 5, Fin 5, Fin 5] (getVecIdxs X_DIRN) 0 0) 0 0 1
            (Fragment_init\<lparr>ftype := FR_TRIANGLE, surfaceprop := Some 0, lineprop := None, index := 0\<rparr>)]"
proof -
  have hyp: "length [Fin 0, Fin 1] = 2 \<and> length [Fin 0, Fin 1] = 2 \<and> 4 \<le> length [Fin 5, Fin 5, Fin 5, Fin 5]
       \<and> isfinite4 (Mesh_triangle_sum (Mesh_cell_pts [Fin 0, Fin 1] [Fin 0, Fin 1] [Fin 5, Fin 5, Fin 5, Fin 5]
                                         (getVecIdxs X_DIRN) 0 0) 0 0 0)
       \<and> isfinite4 (Mesh_triangle_sum (Mesh_cell_pts [Fin 0, Fin 1] [Fin 0, Fin 1] [Fin 5, Fin 5, Fin 5, Fin 5]
                                         (getVecIdxs X_DIRN) 0 0) 0 0 1)"
    by (simp add: flat_cell_pts flat_cell_sums dround_fin del: getVecIdxs.simps)
  from Mesh_surface_triangles[of "[Fin 0, Fin 1]" "[Fin 0, Fin 1]" "[Fin 5, Fin 5, Fin 5, Fin 5]" X_DIRN 0
      identityM4 "[]"] hyp
  show ?thesis by simp
qed

text \<open>
  C6 as stated fails: a 2x2 grid whose heights are all the largest finite double has
  four finite corners, yet the sums of three of them overflow and no triangle is emitted.
\<close>

theorem Mesh_finite_cell_no_triangle:
  "Mesh_getSurfaceFragments [Fin 0, Fin 1] [Fin 0, Fin 1] [Fin DBL_MAX, Fin DBL_MAX, Fin DBL_MAX, Fin DBL_MAX]
       X_DIRN (Some 0) identityM4 [] = Inr []
   \<and> list_all isfinite4
        (Mesh_cell_pts [Fin 0, Fin 1] [Fin 0, Fin 1] [Fin DBL_MAX, Fin DBL_MAX, Fin DBL_MAX, Fin DBL_MAX]
           (getVecIdxs X_DIRN) 0 0)"
proof -
  have h: "length [Fin 0, Fin 1] * length [Fin 0, Fin 1]
            \<le> length [Fin DBL_MAX, Fin DBL_MAX, Fin DBL_MAX, Fin DBL_MAX]" by simp
  show ?thesis
    unfolding Mesh_getSurfaceFragments_closed[OF h]
    by (simp add: Mesh_cell_triangles_alt[OF Mesh_cell_pts_length] flat_cell_pts flat_cell_sums
        dround_twice_max del: getVecIdxs.simps)
qed

lemma appends_finite_refl: "appends_finite v v"
  by (simp add: appends_finite_def)

lemma appends_finite_trans: "appends_finite a b \<Longrightarrow> appends_finite b c \<Longrightarrow> appends_finite a c"
  by (auto simp: appends_finite_def)

lemma appends_finite_snoc: "fragment_finite f \<Longrightarrow> appends_finite v (v @ [f])"
  by (simp add: appends_finite_def)

lemma appends_finite_snoc': "appends_finite a v \<Longrightarrow> fragment_finite f \<Longrightarrow> appends_finite a (v @ [f])"
  by (blast intro: appends_finite_trans appends_finite_snoc)

lemma fragment_finite_both:
  "isfinite3 (pget (points f) 0) \<Longrightarrow> isfinite3 (pget (points f) 1) \<Longrightarrow> fragment_finite f"
  by (simp add: fragment_finite_def split: FragmentType.splits)

lemma fragment_finite_triangle: "ftype f = FR_TRIANGLE \<Longrightarrow> fragment_finite f"
  by (simp add: fragment_finite_def)

lemma fragment_finite_path: "ftype f = FR_PATH \<Longrightarrow> isfinite3 (pget (points f) 0) \<Longrightarrow> fragment_finite f"
  by (simp add: fragment_finite_def)

lemma efold_rel:
  assumes "\<And>x s s'. f x s = Inr s' \<Longrightarrow> R s s'" "\<And>s. R s s" "\<And>a b c. R a b \<Longrightarrow> R b c \<Longrightarrow> R a c"
  shows "efold f xs s = Inr s' \<Longrightarrow> R s s'"
proof (induction xs arbitrary: s)
  case Nil
  then show ?case using assms(2) by simp
next
  case (Cons x xs)
  then obtain s1 where s1: "f x s = Inr s1" "efold f xs s1 = Inr s'"
    by (auto split: sum.splits)
  from assms(1)[OF s1(1)] Cons.IH[OF s1(2)] show ?case by (rule assms(3))
qed

lemma fold_rel:
  assumes "\<And>x s. R s (f x s)" "\<And>s. R s s" "\<And>a b c. R a b \<Longrightarrow> R b c \<Longrightarrow> R a c"
  shows "R s (fold f xs s)"
proof (induction xs arbitrary: s)
  case Nil
  then show ?case using assms(2) by simp
next
  case (Cons x xs)
  from assms(1)[of s x] Cons.IH[of "f x s"] show ?case by (simp add: assms(3))
qed

text \<open>Triangle and TriangleFacing append triangles only.\<close>

lemma Triangle_appends: "appends_finite v (Triangle_getFragments pts sprop outerM v)"
  by (cases pts) (auto simp: Triangle_getFragments_def intro!: appends_finite_snoc fragment_finite_triangle)

lemma TriangleFacing_appends: "appends_finite v (TriangleFacing_getFragments pts sprop outerM v)"
  by (cases pts) (auto simp: TriangleFacing_getFragments_def Let_def intro: Triangle_appends appends_finite_refl)

text \<open>PolyLine appends a segment only when the sum of its endpoints is finite.\<close>

lemma PolyLine_loop_appends: "appends_finite v (PolyLine_loop outerM ps i f v)"
proof (induction ps arbitrary: i f v)
  case Nil
  then show ?case by (simp add: appends_finite_refl)
next
  case (Cons p ps)
  define f2 where "f2 = f\<lparr>points := pset (pset (points f) 1 (pget (points f) 0)) 0 (proj outerM p), index := i\<rparr>"
  define v1 where "v1 = (if 0 < i \<and> isfinite3 (vadd3 (pget (points f2) 0) (pget (points f2) 1)) then v @ [f2] else v)"
  have step: "appends_finite v v1"
    unfolding v1_def
    by (auto intro!: appends_finite_snoc fragment_finite_both appends_finite_refl dest: isfinite3_vadd3)
  have "PolyLine_loop outerM (p # ps) i f v = PolyLine_loop outerM ps (Suc i) f2 v1"
    by (simp add: Let_def f2_def v1_def)
  with appends_finite_trans[OF step Cons.IH[of v1 "Suc i" f2]] show ?case by simp
qed

lemma PolyLine_appends: "appends_finite v (PolyLine_getFragments pts lprop outerM v)"
  by (simp add: PolyLine_getFragments_def PolyLine_loop_appends)

text \<open>Points appends a marker only when its point is finite.\<close>

lemma Points_appends: "appends_finite v (Points_getFragments x y z sizes lineedge surfacefill outerM v)"
  unfolding Points_getFragments_def Let_def
  by (rule fold_rel[where R = appends_finite])
     (auto intro!: appends_finite_snoc fragment_finite_path intro: appends_finite_refl appends_finite_trans)


text \<open>Mesh: the lines are tested like those of PolyLine, the surface appends triangles only.\<close>

lemma Mesh_line_step_appends:
  assumes "Mesh_line_step outerM heights n2 stepindex vec_step vec_const vidx_step vidx_const vidx_h consti stepi st = Inr st'"
  shows "appends_finite (snd st) (snd st')"
proof -
  obtain fl v where st: "st = (fl, v)" by (cases st)
  from assms obtain h where h: "vec_at heights (if stepindex = 0 then stepi * n2 + consti else consti * n2 + stepi) = Inr h"
    unfolding st Mesh_line_step_def by (auto split: sum.splits)
  define q where "q = vec4to3 (mat_vec outerM (Mesh_line_pt vidx_const vidx_step vidx_h (vec_const ! consti) (vec_step ! stepi) h))"
  define f2 where "f2 = fl\<lparr>points := pset (pset (points fl) 1 (pget (points fl) 0)) 0 q\<rparr>"
  have p0: "pget (points f2) 0 = q" and p1: "pget (points f2) 1 = pget (points fl) 0"
    by (simp_all add: f2_def)
  have s': "snd st' = (if 0 < stepi \<and> isfinite3 (vadd3 (pget (points f2) 0) (pget (points f2) 1)) then v @ [f2] else v)"
    using assms h unfolding st Mesh_line_step_def Let_def f2_def q_def by auto
  show ?thesis
  proof (cases "0 < stepi \<and> isfinite3 (vadd3 (pget (points f2) 0) (pget (points f2) 1))")
    case True
    then have "isfinite3 (pget (points f2) 0) \<and> isfinite3 (pget (points f2) 1)"
      by (blast dest: isfinite3_vadd3)
    then have "fragment_finite f2" by (blast intro: fragment_finite_both)
    then show ?thesis using True s' st by (simp add: appends_finite_snoc)
  next
    case False
    then show ?thesis using s' st by (auto simp: appends_finite_refl)
  qed
qed

lemma Mesh_line_walk_appends:
  "Mesh_line_walk outerM heights n2 stepindex vec_step vec_const vidx_step vidx_const vidx_h consti st = Inr st'
   \<Longrightarrow> appends_finite (snd st) (snd st')"
  unfolding Mesh_line_walk_def
  by (rule efold_rel[where R = "\<lambda>s s'. appends_finite (snd s) (snd s')"])
     (auto intro: Mesh_line_step_appends appends_finite_refl appends_finite_trans)

lemma Mesh_line_dirn_appends:
  "Mesh_line_dirn outerM pos1 pos2 heights vidxs stepindex st = Inr st'
   \<Longrightarrow> appends_finite (snd st) (snd st')"
  unfolding Mesh_line_dirn_def Let_def
  by (cases vidxs, simp only: prod.case)
     (rule efold_rel[where R = "\<lambda>s s'. appends_finite (snd s) (snd s')"],
      auto intro: Mesh_line_walk_appends appends_finite_refl appends_finite_trans)

lemma Mesh_getLineFragments_appends:
  assumes "Mesh_getLineFragments pos1 pos2 heights dirn lprop outerM v = Inr v'"
  shows "appends_finite v v'"
proof (cases "lprop = None")
  case True
  with assms show ?thesis by (simp add: Mesh_getLineFragments_def appends_finite_refl)
next
  case False
  let ?fl = "Fragment_init\<lparr>ftype := FR_LINESEG, surfaceprop := None, lineprop := lprop\<rparr>"
  from assms False obtain fl' where
    e: "efold (Mesh_line_dirn outerM pos1 pos2 heights (getVecIdxs dirn)) [0, 1] (?fl, v) = Inr (fl', v')"
    by (auto simp: Mesh_getLineFragments_def Let_def split: sum.splits)
  have "appends_finite (snd (?fl, v)) (snd (fl', v'))"
    by (rule efold_rel[where R = "\<lambda>s s'. appends_finite (snd s) (snd s')", OF _ _ _ e])
       (auto intro: Mesh_line_dirn_appends appends_finite_refl appends_finite_trans)
  then show ?thesis by simp
qed

lemma Mesh_triangle_appends:
  "ftype fs = FR_TRIANGLE \<Longrightarrow> appends_finite v (Mesh_triangle outerM p i1 i2 tri fs v)"
  by (auto simp: Mesh_triangle_def Let_def intro!: appends_finite_snoc fragment_finite_triangle appends_finite_refl)

lemma Mesh_surface_cell_appends:
  assumes "Mesh_surface_cell outerM pos1 pos2 heights vidxs i1 i2 st = Inr st'" "ftype (fst st) = FR_TRIANGLE"
  shows "ftype (fst st') = FR_TRIANGLE \<and> appends_finite (snd st) (snd st')"
proof -
  obtain fs v where st: "st = (fs, v)" by (cases st)
  from assms obtain p where
    st': "st' = (fs\<lparr>index := index fs + 1\<rparr>, Mesh_triangle outerM p i1 i2 1 fs (Mesh_triangle outerM p i1 i2 0 fs v))"
    unfolding st by (auto simp: Mesh_surface_cell_def split: sum.splits)
  have fs: "ftype fs = FR_TRIANGLE" using assms(2) st by simp
  have "appends_finite v (Mesh_triangle outerM p i1 i2 1 fs (Mesh_triangle outerM p i1 i2 0 fs v))"
    by (rule appends_finite_trans[OF Mesh_triangle_appends[OF fs] Mesh_triangle_appends[OF fs]])
  then show ?thesis using fs by (simp add: st st')
qed

lemma Mesh_getSurfaceFragments_appends:
  assumes "Mesh_getSurfaceFragments pos1 pos2 heights dirn sprop outerM v = Inr v'"
  shows "appends_finite v v'"
proof (cases "sprop = None")
  case True
  with assms show ?thesis by (simp add: Mesh_getSurfaceFragments_def appends_finite_refl)
next
  case False
  let ?fs = "Fragment_init\<lparr>ftype := FR_TRIANGLE, surfaceprop := sprop, lineprop := None\<rparr>"
  let ?R = "\<lambda>s s'. ftype (fst s) = FR_TRIANGLE \<longrightarrow> ftype (fst s') = FR_TRIANGLE \<and> appends_finite (snd s) (snd s')"
  from assms False obtain fs' where
    e: "efold (\<lambda>i1. efold (Mesh_surface_cell outerM pos1 pos2 heights (getVecIdxs dirn) i1) [0..<length pos2 - 1])
          [0..<length pos1 - 1] (?fs, v) = Inr (fs', v')"
    by (auto simp: Mesh_getSurfaceFragments_def Let_def split: sum.splits)
  have row: "\<And>i1 xs s s'. efold (Mesh_surface_cell outerM pos1 pos2 heights (getVecIdxs dirn) i1) xs s = Inr s'
      \<Longrightarrow> ?R s s'"
  proof -
    fix i1 xs s s'
    assume a: "efold (Mesh_surface_cell outerM pos1 pos2 heights (getVecIdxs dirn) i1) xs s = Inr s'"
    show "?R s s'"
      by (rule efold_rel[where R = ?R, OF _ _ _ a])
         (auto dest: Mesh_surface_cell_appends intro: appends_finite_refl appends_finite_trans)
  qed
  have "?R (?fs, v) (fs', v')"
    by (rule efold_rel[where R = ?R, OF _ _ _ e])
       (auto dest: row intro: appends_finite_refl appends_finite_trans)
  then show ?thesis by simp
qed

lemma Mesh_appends:
  "Mesh_getFragments pos1 pos2 heights dirn lprop sprop outerM v = Inr v' \<Longrightarrow> appends_finite v v'"
  by (auto simp: Mesh_getFragments_def split: sum.splits
           intro: appends_finite_trans[OF Mesh_getLineFragments_appends Mesh_getSurfaceFragments_appends])


text \<open>DataMesh: a line is appended only when both its endpoints are finite.\<close>

lemma DataMesh_triangles_appends:
  "ftype ft = FR_TRIANGLE \<Longrightarrow> appends_finite v (DataMesh_triangles highres corners3 ft i1 i2 n2 v)"
  unfolding DataMesh_triangles_def Let_def
  by (rule fold_rel[where R = appends_finite])
     (auto intro!: appends_finite_snoc fragment_finite_triangle intro: appends_finite_refl appends_finite_trans)

lemma DataMesh_line_step_appends:
  "appends_finite (fst st) (fst (DataMesh_line_step lines linecells corners3 fl i1 i2 n2 i st))"
  by (cases st)
     (auto simp: DataMesh_line_step_def Let_def
           intro!: appends_finite_snoc fragment_finite_both appends_finite_refl)

lemma DataMesh_lines_appends:
  "appends_finite (fst st) (fst (fold (DataMesh_line_step lines linecells corners3 fl i1 i2 n2) xs st))"
  by (rule fold_rel[where R = "\<lambda>s s'. appends_finite (fst s) (fst s')"])
     (auto intro: DataMesh_line_step_appends appends_finite_refl appends_finite_trans)

lemma DataMesh_cell_appends:
  assumes "ftype ft = FR_TRIANGLE"
  shows "appends_finite (fst st) (fst (DataMesh_cell idxs edges1 edges2 vals highres ft fl outerM n1 n2 i1 i2 st))"
proof -
  obtain v tr where st: "st = (v, tr)" by (cases st)
  define c3 where "c3 = DataMesh_corners3 outerM idxs edges1 edges2 vals n1 n2 i1 i2"
  define v1 where "v1 = (if surfaceprop ft \<noteq> None then DataMesh_triangles highres c3 ft i1 i2 n2 v else v)"
  have a: "appends_finite v v1"
    unfolding v1_def using assms by (simp add: DataMesh_triangles_appends appends_finite_refl)
  have b: "\<And>lines linecells xs. appends_finite v (fst (fold (DataMesh_line_step lines linecells c3 fl i1 i2 n2) xs (v1, tr)))"
    using appends_finite_trans[OF a] DataMesh_lines_appends[of "(v1, tr)"] by simp
  show ?thesis
    unfolding st DataMesh_cell_def Let_def prod.case c3_def[symmetric] v1_def[symmetric]
    using a b by (simp add: appends_finite_refl)
qed

lemma DataMesh_appends:
  "appends_finite (fragvec out)
     (fragvec (DataMesh_getFragments edges1 edges2 vals idxval idxedge1 idxedge2 highres lprop sprop outerM out))"
proof -
  have cells: "\<And>ft fl idxs n1 n2 xs ys st. ftype ft = FR_TRIANGLE \<Longrightarrow>
     appends_finite (fst st)
       (fst (fold (\<lambda>i1. fold (DataMesh_cell idxs edges1 edges2 vals highres ft fl outerM n1 n2 i1) ys) xs st))"
  proof -
    fix ft :: Fragment and fl idxs n1 n2 xs ys and st :: "Fragment list \<times> LineCellTracker"
    assume ft: "ftype ft = FR_TRIANGLE"
    have row: "\<And>i1 s. appends_finite (fst s)
        (fst (fold (DataMesh_cell idxs edges1 edges2 vals highres ft fl outerM n1 n2 i1) ys s))"
      by (rule fold_rel[where R = "\<lambda>s s'. appends_finite (fst s) (fst s')"])
         (auto intro: DataMesh_cell_appends[OF ft] appends_finite_refl appends_finite_trans)
    show "appends_finite (fst st)
       (fst (fold (\<lambda>i1. fold (DataMesh_cell idxs edges1 edges2 vals highres ft fl outerM n1 n2 i1) ys) xs st))"
      by (rule fold_rel[where R = "\<lambda>s s'. appends_finite (fst s) (fst s')"])
         (auto intro: row appends_finite_refl appends_finite_trans)
  qed
  show ?thesis
    unfolding DataMesh_getFragments_def Let_def
    using cells[where ft = "Fragment_init\<lparr>ftype := FR_TRIANGLE, surfaceprop := sprop, lineprop := None\<rparr>"
                  and st = "(fragvec out, LineCellTracker_init (length edges1) (length edges2))"]
    by (simp add: appends_finite_refl)
qed

text \<open>The hierarchy, by induction over the virtual call and the loop of a container.\<close>

lemma getFragments_appends:
  "tests_finiteness obj \<longrightarrow> (\<forall>out'. getFragments lc obj outerM out = Inr out' \<longrightarrow>
      appends_finite (fragvec out) (fragvec out'))"
  "list_all tests_finiteness objects \<longrightarrow> (\<forall>out'. ObjectContainer_getFragments lc objects totM out = Inr out' \<longrightarrow>
      appends_finite (fragvec out) (fragvec out'))"
proof (induction lc obj outerM out and lc objects totM out rule: getFragments_ObjectContainer_getFragments.induct)
  case (1 lc outerM out)
  then show ?case by (simp add: appends_finite_refl)
next
  case (2 lc pts sprop outerM out)
  then show ?case by (auto simp: push_def Triangle_appends)
next
  case (3 lc pts lprop outerM out)
  then show ?case by (auto simp: push_def PolyLine_appends)
next
  case (4 lc pts lprop outerM out)
  then show ?case by simp
next
  case (5 lc pos1 pos2 heights dirn lprop sprop outerM out)
  then show ?case by (auto simp: push_checked_def Mesh_appends split: sum.splits)
next
  case (6 lc edges1 edges2 vals idxval idxedge1 idxedge2 highres lprop sprop outerM out)
  then show ?case by (auto simp: DataMesh_appends)
next
  case (7 lc x y z sizes lineedge surfacefill outerM out)
  then show ?case by (auto simp: push_def Points_appends)
next
  case (8 lc pos1 pos2 outerM out)
  then show ?case by simp
next
  case (9 lc pts sprop outerM out)
  then show ?case by (auto simp: push_def TriangleFacing_appends)
next
  case (10 lc objM objects outerM out)
  then show ?case by simp
next
  case (11 lc normal objM objects outerM out)
  then show ?case by (simp add: appends_finite_refl)
next
  case (12 lc box1 box2 tickfracs starts ends outerM out)
  then show ?case by simp
next
  case (13 lc totM out)
  then show ?case by (simp add: appends_finite_refl)
next
  case (14 lc obj objects totM out)
  then show ?case by (auto split: sum.splits intro: appends_finite_trans)
qed


text \<open>
  C4, amended. The claim: every non-triangle fragment appended by \<open>getFragments\<close>, for every
  object of the hierarchy and every transform, has finite coordinates in the points its
  kind uses. This holds for the objects that test finiteness before they append: Triangle,
  PolyLine, Mesh, DataMesh, Points, TriangleFacing, and the containers whose children are
  all of these (\<open>tests_finiteness\<close>). For such an object, whenever \<open>getFragments\<close> returns,
  the fragment vector is the old one followed by fragments that are triangles, line
  segments with finite points 0 and 1, or path markers with a finite point 0.
\<close>

theorem getFragments_appends_finite:
  assumes "tests_finiteness obj" and "getFragments lc obj outerM out = Inr out'"
  shows "\<exists>new. fragvec out' = fragvec out @ new \<and> list_all fragment_finite new"
  using getFragments_appends(1)[of obj lc outerM out] assms unfolding appends_finite_def by blast

lemma mat_mul_identity: "mat_mul identityM4 identityM4 = identityM4"
  by (simp add: identityM4_def dround_fin)

lemma proj_identity_nan: "proj identityM4 (Vec3 NaN (Fin 0) (Fin 0)) = Vec3 NaN NaN NaN"
  by (simp add: proj_def identityM4_def)

lemma mat_vec_identity_nan: "vec4to3 (mat_vec identityM4 (Vec4 NaN (Fin 0) (Fin 0) (Fin 1))) = Vec3 NaN NaN NaN"
  by (simp add: identityM4_def)

lemma mat_vec_identity_zero:
  "vec4to3 (mat_vec identityM4 (Vec4 (Fin 0) (Fin 0) (Fin 0) (Fin 1))) = Vec3 (Fin 0) (Fin 0) (Fin 0)"
  by (simp add: identityM4_def dround_fin)

text \<open>
  An instance: a container with a PolyLine of three points, the first of them NaN, under
  the identity. The segment that ends in the NaN point is left out, the other is appended.
\<close>

theorem getFragments_appends_finite_witness:
  "tests_finiteness (ObjectContainer identityM4 [PolyLine [Vec3 NaN (Fin 0) (Fin 0), Vec3 (Fin 0) (Fin 0) (Fin 0), Vec3 (Fin 1) (Fin 0) (Fin 0)] None])
   \<and> getFragments no_line_crosses (ObjectContainer identityM4 [PolyLine [Vec3 NaN (Fin 0) (Fin 0), Vec3 (Fin 0) (Fin 0) (Fin 0), Vec3 (Fin 1) (Fin 0) (Fin 0)] None])
        identityM4 \<lparr>fragvec = [], stderr = []\<rparr>
      = Inr \<lparr>fragvec = [Fragment_init\<lparr>ftype := FR_LINESEG,
                  points := Points3 (Vec3 (Fin 1) (Fin 0) (Fin 0)) (Vec3 (Fin 0) (Fin 0) (Fin 0)) (Vec3 (Fin 0) (Fin 0) (Fin 0)),
                  index := 2\<rparr>], stderr = []\<rparr>
   \<and> (\<exists>new. [Fragment_init\<lparr>ftype := FR_LINESEG,
                  points := Points3 (Vec3 (Fin 1) (Fin 0) (Fin 0)) (Vec3 (Fin 0) (Fin 0) (Fin 0)) (Vec3 (Fin 0) (Fin 0) (Fin 0)),
                  index := 2\<rparr>] = [] @ new \<and> list_all fragment_finite new)"
proof -
  have a: "tests_finiteness (ObjectContainer identityM4 [PolyLine [Vec3 NaN (Fin 0) (Fin 0), Vec3 (Fin 0) (Fin 0) (Fin 0), Vec3 (Fin 1) (Fin 0) (Fin 0)] None])"
    by simp
  have b: "getFragments no_line_crosses (ObjectContainer identityM4 [PolyLine [Vec3 NaN (Fin 0) (Fin 0), Vec3 (Fin 0) (Fin 0) (Fin 0), Vec3 (Fin 1) (Fin 0) (Fin 0)] None])
        identityM4 \<lparr>fragvec = [], stderr = []\<rparr>
      = Inr \<lparr>fragvec = [Fragment_init\<lparr>ftype := FR_LINESEG,
                  points := Points3 (Vec3 (Fin 1) (Fin 0) (Fin 0)) (Vec3 (Fin 0) (Fin 0) (Fin 0)) (Vec3 (Fin 0) (Fin 0) (Fin 0)),
                  index := 2\<rparr>], stderr = []\<rparr>"
    by (simp add: mat_mul_identity push_def PolyLine_getFragments_def Let_def proj_identity_nan
          proj_identity_fin Fragment_init_def dround_fin)
  from getFragments_appends_finite[OF a b] a b show ?thesis by simp
qed

text \<open>
  C4 as stated fails: LineSegments and Text append without any test (and so does
  AxisTickLabels, which is why \<open>tests_finiteness\<close> leaves the three out). A LineSegments of
  one segment whose first point has a NaN coordinate appends a line segment whose point 0
  is NaN, and a Text whose first position has a NaN coordinate appends a path marker whose
  point 0 is NaN.
\<close>

theorem untested_objects_emit_nonfinite:
  "getFragments no_line_crosses (LineSegments [Vec3 NaN (Fin 0) (Fin 0), Vec3 (Fin 0) (Fin 0) (Fin 0)] None)
        identityM4 \<lparr>fragvec = [], stderr = []\<rparr>
     = Inr \<lparr>fragvec = [Fragment_init\<lparr>ftype := FR_LINESEG,
                 points := Points3 (Vec3 NaN NaN NaN) (Vec3 (Fin 0) (Fin 0) (Fin 0)) (Vec3 (Fin 0) (Fin 0) (Fin 0))\<rparr>],
             stderr = []\<rparr>
   \<and> \<not> fragment_finite (Fragment_init\<lparr>ftype := FR_LINESEG,
                 points := Points3 (Vec3 NaN NaN NaN) (Vec3 (Fin 0) (Fin 0) (Fin 0)) (Vec3 (Fin 0) (Fin 0) (Fin 0))\<rparr>)
   \<and> getFragments no_line_crosses (Text [NaN, Fin 0, Fin 0] [Fin 0, Fin 0, Fin 0])
        identityM4 \<lparr>fragvec = [], stderr = []\<rparr>
     = Inr \<lparr>fragvec = [Fragment_init\<lparr>ftype := FR_PATH,
                 points := Points3 (Vec3 NaN NaN NaN) (Vec3 (Fin 0) (Fin 0) (Fin 0)) (Vec3 (Fin 0) (Fin 0) (Fin 0)),
                 pathsize := Fin 1\<rparr>],
             stderr = []\<rparr>
   \<and> \<not> fragment_finite (Fragment_init\<lparr>ftype := FR_PATH,
                 points := Points3 (Vec3 NaN NaN NaN) (Vec3 (Fin 0) (Fin 0) (Fin 0)) (Vec3 (Fin 0) (Fin 0) (Fin 0)),
                 pathsize := Fin 1\<rparr>)"
proof -
  have z: "proj identityM4 (Vec3 (Fin 0) (Fin 0) (Fin 0)) = Vec3 (Fin 0) (Fin 0) (Fin 0)"
    by (simp add: proj_identity_fin)
  have a: "getFragments no_line_crosses (LineSegments [Vec3 NaN (Fin 0) (Fin 0), Vec3 (Fin 0) (Fin 0) (Fin 0)] None)
        identityM4 \<lparr>fragvec = [], stderr = []\<rparr>
     = Inr \<lparr>fragvec = [Fragment_init\<lparr>ftype := FR_LINESEG,
                 points := Points3 (Vec3 NaN NaN NaN) (Vec3 (Fin 0) (Fin 0) (Fin 0)) (Vec3 (Fin 0) (Fin 0) (Fin 0))\<rparr>],
             stderr = []\<rparr>"
    by (simp add: push_checked_def LineSegments_getFragments_def Let_def proj_identity_nan z Fragment_init_def)
  have b: "getFragments no_line_crosses (Text [NaN, Fin 0, Fin 0] [Fin 0, Fin 0, Fin 0])
        identityM4 \<lparr>fragvec = [], stderr = []\<rparr>
     = Inr \<lparr>fragvec = [Fragment_init\<lparr>ftype := FR_PATH,
                 points := Points3 (Vec3 NaN NaN NaN) (Vec3 (Fin 0) (Fin 0) (Fin 0)) (Vec3 (Fin 0) (Fin 0) (Fin 0)),
                 pathsize := Fin 1\<rparr>],
             stderr = []\<rparr>"
    by (simp add: push_def Text_getFragments_def Let_def mat_vec_identity_nan mat_vec_identity_zero Fragment_init_def)
  have c: "\<not> fragment_finite (Fragment_init\<lparr>ftype := FR_LINESEG,
                 points := Points3 (Vec3 NaN NaN NaN) (Vec3 (Fin 0) (Fin 0) (Fin 0)) (Vec3 (Fin 0) (Fin 0) (Fin 0))\<rparr>)"
    by (simp add: fragment_finite_def)
  have d: "\<not> fragment_finite (Fragment_init\<lparr>ftype := FR_PATH,
                 points := Points3 (Vec3 NaN NaN NaN) (Vec3 (Fin 0) (Fin 0) (Fin 0)) (Vec3 (Fin 0) (Fin 0) (Fin 0)),
                 pathsize := Fin 1\<rparr>)"
    by (simp add: fragment_finite_def)
  from a b c d show ?thesis by blast
qed

end
